theory Spec2Isabelle
  imports Main "HOL-Library.Word" "HOL-Library.AList" "HOL-Library.Sublist"
begin

section \<open>Errors (errors.go) and the error classifier (client.go)\<close>

text \<open>
  \<^verbatim>\<open>APIError\<close> of errors.go. Go's \<^verbatim>\<open>int\<close> fields are only stored and compared, never
  computed with, so they are modelled as \<open>int\<close>.
\<close>

record APIError =
  StatusCode :: int
  Code :: int
  Message :: string
  RawBody :: string

definition IsRateLimited :: "APIError \<Rightarrow> bool" where
  "IsRateLimited e = (Code e = 88 \<or> StatusCode e = 429)"

definition IsForbidden :: "APIError \<Rightarrow> bool" where
  "IsForbidden e = (StatusCode e = 403)"

definition IsUnauthorized :: "APIError \<Rightarrow> bool" where
  "IsUnauthorized e = (StatusCode e = 401)"

definition IsRetryable :: "APIError \<Rightarrow> bool" where
  "IsRetryable e = (IsRateLimited e \<or> IsForbidden e)"

text \<open>
  Go error values, as far as the client tells them apart:
  the two context sentinels, \<^verbatim>\<open>*APIError\<close>, an error implementing \<^verbatim>\<open>net.Error\<close>
  (its \<^verbatim>\<open>Timeout()\<close> answer, its text and what it unwraps to, as \<^verbatim>\<open>*url.Error\<close> does),
  an error of encoding/json, an error built by \<^verbatim>\<open>fmt.Errorf\<close> with one \<^verbatim>\<open>%w\<close>
  (the text before the verb, the wrapped error, the text after it), and any other
  plain error.
\<close>

datatype error =
    Canceled
  | DeadlineExceeded
  | ApiErr APIError
  | NetErr bool string "error option"
  | JsonErr string
  | Wrapped string error string
  | Other string

fun digit_char :: "nat \<Rightarrow> char" where
  "digit_char n = char_of (48 + n)"

fun dec_nat :: "nat \<Rightarrow> string" where
  "dec_nat n = (if n < 10 then [digit_char n] else dec_nat (n div 10) @ [digit_char (n mod 10)])"

declare dec_nat.simps [simp del]

definition dec_int :: "int \<Rightarrow> string" where
  "dec_int i = (if i < 0 then CHR ''-'' # dec_nat (nat (- i)) else dec_nat (nat i))"

text \<open>\<^verbatim>\<open>Error()\<close>: the message of an error; for \<^verbatim>\<open>*APIError\<close> the format of errors.go.\<close>

fun Error :: "error \<Rightarrow> string" where
  "Error Canceled = ''context canceled''"
| "Error DeadlineExceeded = ''context deadline exceeded''"
| "Error (ApiErr e) =
     ''utools: HTTP '' @ dec_int (StatusCode e) @ '', code='' @ dec_int (Code e)
       @ '', message='' @ Message e"
| "Error (NetErr t m u) = m"
| "Error (JsonErr m) = m"
| "Error (Wrapped p e s) = p @ Error e @ s"
| "Error (Other m) = m"

text \<open>The chain that \<^verbatim>\<open>errors.Is\<close> and \<^verbatim>\<open>errors.As\<close> walk: the error, then what it
  unwraps to, and so on.\<close>

fun chain :: "error \<Rightarrow> error list" where
  "chain (Wrapped p e s) = Wrapped p e s # chain e"
| "chain (NetErr t m (Some e)) = NetErr t m (Some e) # chain e"
| "chain e = [e]"

definition errors_Is :: "error \<Rightarrow> error \<Rightarrow> bool" where
  "errors_Is err target = list_ex (\<lambda>e. e = target) (chain err)"

fun first_api :: "error list \<Rightarrow> APIError option" where
  "first_api [] = None"
| "first_api (ApiErr a # es) = Some a"
| "first_api (e # es) = first_api es"

text \<open>The first error of the chain that implements \<^verbatim>\<open>net.Error\<close>, as its \<^verbatim>\<open>Timeout()\<close>.
  The deadline sentinel of package context implements it and answers true.\<close>

fun first_net :: "error list \<Rightarrow> bool option" where
  "first_net [] = None"
| "first_net (NetErr t m u # es) = Some t"
| "first_net (DeadlineExceeded # es) = Some True"
| "first_net (e # es) = first_net es"

definition isRetryableError :: "error option \<Rightarrow> bool" where
  "isRetryableError err =
     (case err of
        None \<Rightarrow> False
      | Some e \<Rightarrow>
          if errors_Is e Canceled \<or> errors_Is e DeadlineExceeded then False
          else (case first_api (chain e) of
                  Some a \<Rightarrow> IsRetryable a
                | None \<Rightarrow> (case first_net (chain e) of
                              Some t \<Rightarrow> t
                            | None \<Rightarrow> False)))"

text \<open>\<^verbatim>\<open>Truncate\<close> of client.go. \<^verbatim>\<open>len\<close> counts bytes, as \<open>length\<close> of a \<open>string\<close>
  does. The source's \<^verbatim>\<open>maxLen\<close> is an \<^verbatim>\<open>int\<close>; every call passes the constant 500,
  so the bound is a \<open>nat\<close> here (a negative bound would make the slice expression
  panic).\<close>

definition Truncate :: "string \<Rightarrow> nat \<Rightarrow> string" where
  "Truncate s maxLen = (if length s \<le> maxLen then s else take maxLen s @ ''...'')"


section \<open>The client and its environment\<close>

text \<open>
  \<^verbatim>\<open>Config\<close> (package config) and its \<^verbatim>\<open>Validate\<close>: a missing API key is the only
  failure; every other field falls back to its default. \<^verbatim>\<open>Timeout\<close> is a
  \<^verbatim>\<open>time.Duration\<close> (nanoseconds). The \<^verbatim>\<open>float64\<close> field \<^verbatim>\<open>RateLimit\<close> only
  configures the rate limiter, which belongs to the environment here, and is left
  out. The declaration of the sentinel \<^verbatim>\<open>ErrMissingAPIKey\<close> is not among the files at
  hand; only its identity matters.
\<close>

record Config =
  BaseURL :: string
  APIKey :: string
  AuthToken :: string
  CT0 :: string
  Timeout :: int
  MaxRetries :: int

definition DefaultBaseURL :: string where "DefaultBaseURL = ''https://fapi.uk''"
definition DefaultTimeout :: int where "DefaultTimeout = 30 * 1000000000"
definition DefaultMaxRetries :: int where "DefaultMaxRetries = 3"

definition ErrMissingAPIKey :: error where
  "ErrMissingAPIKey = Other ''ErrMissingAPIKey''"

definition Validate :: "Config \<Rightarrow> error + Config" where
  "Validate c =
     (if APIKey c = [] then Inl ErrMissingAPIKey
      else
        let c1 = (if BaseURL c = [] then c\<lparr>BaseURL := DefaultBaseURL\<rparr> else c);
            c2 = (if Timeout c1 \<le> 0 then c1\<lparr>Timeout := DefaultTimeout\<rparr> else c1);
            c3 = (if MaxRetries c2 < 0 then c2\<lparr>MaxRetries := DefaultMaxRetries\<rparr> else c2)
        in Inr c3)"

text \<open>\<^verbatim>\<open>Client\<close>: the fields the request pipeline reads. The HTTP client and the rate
  limiter are part of the environment below.\<close>

record Client =
  baseURL :: string
  apiKey :: string
  authToken :: string
  ct0 :: string
  maxRetries :: int

definition TrimRight :: "string \<Rightarrow> char \<Rightarrow> string" where
  "TrimRight s ch = rev (dropWhile (\<lambda>x. x = ch) (rev s))"

definition NewClient :: "Config \<Rightarrow> error + Client" where
  "NewClient cfg =
     (case Validate cfg of
        Inl err \<Rightarrow> Inl err
      | Inr cfg' \<Rightarrow>
          Inr \<lparr>baseURL = TrimRight (BaseURL cfg') (CHR ''/''), apiKey = APIKey cfg',
               authToken = AuthToken cfg', ct0 = CT0 cfg', maxRetries = MaxRetries cfg'\<rparr>)"

text \<open>
  A Go \<^verbatim>\<open>map[string]string\<close> is a reference to a mutable object. The store holds the
  maps; a reference is an index into it (or \<^verbatim>\<open>nil\<close>), \<^verbatim>\<open>make\<close> appends a new empty
  map, \<^verbatim>\<open>m[k] = v\<close> updates the map at the index. A map is an association list with
  one pair per key; \<^verbatim>\<open>range\<close> visits its pairs in some order, here the list's.

  Besides the store, the state counts the loop iterations of the retry drivers started
  so far (\<open>clock\<close>, the index of the next environment answer), the transport cycles
  performed (\<open>attempts\<close>: the calls of \<^verbatim>\<open>do\<close> and \<^verbatim>\<open>doRaw\<close>) and the backoff durations
  slept (\<open>slept\<close>, oldest first).
\<close>

type_synonym gomap = "(string \<times> string) list"

record world =
  heap :: "gomap list"
  clock :: nat
  attempts :: nat
  slept :: "64 word option list"

definition make_map :: "world \<Rightarrow> nat \<times> world" where
  "make_map w = (length (heap w), w\<lparr>heap := heap w @ [[]]\<rparr>)"

definition map_assign :: "nat \<Rightarrow> string \<Rightarrow> string \<Rightarrow> world \<Rightarrow> world" where
  "map_assign a k v w = w\<lparr>heap := (heap w)[a := AList.update k v (heap w ! a)]\<rparr>"

definition range_map :: "nat option \<Rightarrow> world \<Rightarrow> (string \<times> string) list" where
  "range_map m w = (case m of None \<Rightarrow> [] | Some a \<Rightarrow> heap w ! a)"

text \<open>\<^verbatim>\<open>for k, v := range src { dst[k] = v }\<close>\<close>

definition copy_into :: "nat \<Rightarrow> nat option \<Rightarrow> world \<Rightarrow> world" where
  "copy_into dst src w = fold (\<lambda>(k, v). map_assign dst k v) (range_map src w) w"

text \<open>
  What the outside world answers during one iteration of a retry loop:
  whether the context is done before the backoff timer fires (then \<^verbatim>\<open>ctx.Err()\<close>),
  what \<^verbatim>\<open>limiter.Wait\<close> returns, whether \<^verbatim>\<open>url.Parse\<close> and
  \<^verbatim>\<open>http.NewRequestWithContext\<close> fail, and what the exchange with the server gives for
  the request (method, URL, parameters): \<^verbatim>\<open>httpClient.Do\<close> fails, \<^verbatim>\<open>io.ReadAll\<close>
  fails, or a status code and a body arrive.
\<close>

datatype exchange = DoFailed error | ReadFailed error | Response int string

record attempt_env =
  ctx_done :: "error option"
  limiter_wait :: "error option"
  parse_url :: "string \<Rightarrow> error option"
  new_request :: "string \<Rightarrow> string \<Rightarrow> error option"
  http_do :: "string \<Rightarrow> string \<Rightarrow> gomap \<Rightarrow> exchange"

text \<open>
  encoding/json, as the client uses it: \<^verbatim>\<open>json.Unmarshal\<close> into the anonymous error
  struct, into the envelope struct, into a string, and into the caller's result
  destination of type \<open>'r\<close> (the new content of the destination, and the message of
  the error if it fails).
\<close>

record errResp =
  Code_r :: int
  Message_r :: string
  Msg_r :: string

record envelope =
  Code_e :: int
  Data :: string
  Msg :: string
  Result :: string

record 'r json_lib =
  unmarshal_errResp :: "string \<Rightarrow> errResp option"
  unmarshal_envelope :: "string \<Rightarrow> envelope option"
  unmarshal_string :: "string \<Rightarrow> string option"
  unmarshal_result :: "string \<Rightarrow> 'r \<Rightarrow> string option \<times> 'r"

section \<open>One transport cycle: \<^verbatim>\<open>do\<close> and \<^verbatim>\<open>doRaw\<close> (client.go)\<close>

text \<open>
  Lines 252-313 of \<^verbatim>\<open>do\<close>, which are lines 162-221 of \<^verbatim>\<open>doRaw\<close> word for word:
  copy the caller's parameters into a new map, add the API key, build the request
  for the method, send it and read the body. The advisory log line about the
  \<^verbatim>\<open>x-rate-limit-reset\<close> header changes nothing and is left out.
\<close>

definition send :: "attempt_env \<Rightarrow> string \<Rightarrow> string \<Rightarrow> nat \<Rightarrow> world \<Rightarrow> error + int \<times> string" where
  "send ae method reqURL merged w =
     (case new_request ae method reqURL of
        Some err \<Rightarrow> Inl (Wrapped ''utools: create request: '' err [])
      | None \<Rightarrow>
          (case http_do ae method reqURL (heap w ! merged) of
             DoFailed err \<Rightarrow> Inl (Wrapped ''utools: http request: '' err [])
           | ReadFailed err \<Rightarrow> Inl (Wrapped ''utools: read body: '' err [])
           | Response status body \<Rightarrow> Inr (status, body)))"

definition request ::
  "attempt_env \<Rightarrow> Client \<Rightarrow> string \<Rightarrow> string \<Rightarrow> nat option \<Rightarrow> world
     \<Rightarrow> (error + int \<times> string) \<times> world" where
  "request ae c method path params w =
     (let reqURL = baseURL c @ path;
          (merged, w1) = make_map w;
          w2 = copy_into merged params w1;
          w3 = map_assign merged ''apiKey'' (apiKey c) w2;
          w4 = w3\<lparr>attempts := Suc (attempts w3)\<rparr>
      in if method = ''GET'' then
           (case parse_url ae reqURL of
              Some parseErr \<Rightarrow> (Inl (Wrapped ''utools: parse url: '' parseErr []), w4)
            | None \<Rightarrow> (send ae method reqURL merged w4, w4))
         else if method = ''POST'' then (send ae method reqURL merged w4, w4)
         else (Inl (Other (''utools: unsupported method: '' @ method)), w4))"

text \<open>The \<^verbatim>\<open>*APIError\<close> built for a status outside 200..299.\<close>

definition http_error :: "'r json_lib \<Rightarrow> int \<Rightarrow> string \<Rightarrow> APIError" where
  "http_error lib status body =
     (let apiErr = \<lparr>StatusCode = status, Code = 0, Message = [], RawBody = body\<rparr>;
          apiErr1 = (case unmarshal_errResp lib body of
                       None \<Rightarrow> apiErr
                     | Some r \<Rightarrow>
                         apiErr\<lparr>Code := Code_r r,
                                Message := (if Message_r r \<noteq> [] then Message_r r else Msg_r r)\<rparr>)
      in if Message apiErr1 = [] then apiErr1\<lparr>Message := body\<rparr> else apiErr1)"

text \<open>Lines 343-385 of \<^verbatim>\<open>do\<close>: unwrapping the envelope into the destination \<open>r\<close>.\<close>

definition quoted :: "string \<Rightarrow> bool" where
  "quoted d = (case d of [] \<Rightarrow> False | ch # _ \<Rightarrow> ch = CHR 0x22)"

definition decode_data :: "'r json_lib \<Rightarrow> envelope \<Rightarrow> 'r \<Rightarrow> error option \<times> 'r" where
  "decode_data lib env r =
     (case unmarshal_result lib (Data env) r of
        (Some m, r') \<Rightarrow>
          (Some (Wrapped ''utools: unmarshal data field: '' (JsonErr m)
                   ('' (data: '' @ Truncate (Data env) 500 @ '')'')), r')
      | (None, r') \<Rightarrow> (None, r'))"

definition unwrap :: "'r json_lib \<Rightarrow> int \<Rightarrow> string \<Rightarrow> 'r \<Rightarrow> error option \<times> 'r" where
  "unwrap lib status body r =
     (case (case unmarshal_envelope lib body of
              None \<Rightarrow> None
            | Some env \<Rightarrow> if 0 < length (Data env) \<or> Code_e env \<noteq> 0 then Some env else None) of
        Some env \<Rightarrow>
          if Code_e env \<noteq> 0 \<and> Code_e env \<noteq> 1 then
            (Some (ApiErr \<lparr>StatusCode = status, Code = Code_e env, Message = Msg env,
                           RawBody = body\<rparr>), r)
          else if quoted (Data env) then
            (case unmarshal_string lib (Data env) of
               Some dataStr \<Rightarrow>
                 (case unmarshal_result lib dataStr r of
                    (Some m, r') \<Rightarrow>
                      (Some (Wrapped ''utools: unmarshal inner data: '' (JsonErr m)
                               ('' (data: '' @ Truncate dataStr 500 @ '')'')), r')
                  | (None, r') \<Rightarrow> (None, r'))
             | None \<Rightarrow> decode_data lib env r)
          else decode_data lib env r
      | None \<Rightarrow>
          (case unmarshal_result lib body r of
             (Some m, r') \<Rightarrow>
               (Some (Wrapped ''utools: unmarshal response: '' (JsonErr m)
                        ('' (body: '' @ Truncate body 500 @ '')'')), r')
           | (None, r') \<Rightarrow> (None, r')))"

definition do ::
  "'r json_lib \<Rightarrow> attempt_env \<Rightarrow> Client \<Rightarrow> string \<Rightarrow> string \<Rightarrow> nat option \<Rightarrow> 'r option \<Rightarrow> world
     \<Rightarrow> error option \<times> 'r option \<times> world" where
  "do lib ae c method path params result w =
     (case request ae c method path params w of
        (Inl err, w') \<Rightarrow> (Some err, result, w')
      | (Inr (status, body), w') \<Rightarrow>
          if status < 200 \<or> 300 \<le> status then
            (Some (ApiErr (http_error lib status body)), result, w')
          else
            (case result of
               None \<Rightarrow> (None, None, w')
             | Some r \<Rightarrow> (case unwrap lib status body r of (err, r') \<Rightarrow> (err, Some r', w'))))"

definition doRaw ::
  "'r json_lib \<Rightarrow> attempt_env \<Rightarrow> Client \<Rightarrow> string \<Rightarrow> string \<Rightarrow> nat option \<Rightarrow> world
     \<Rightarrow> (error + string) \<times> world" where
  "doRaw lib ae c method path params w =
     (case request ae c method path params w of
        (Inl err, w') \<Rightarrow> (Inl err, w')
      | (Inr (status, body), w') \<Rightarrow>
          if status < 200 \<or> 300 \<le> status then (Inl (ApiErr (http_error lib status body)), w')
          else (Inr body, w'))"


section \<open>The retry drivers (client.go)\<close>

text \<open>
  The backoff before retry \<open>attempt\<close> (lines 74-77):
  \<^verbatim>\<open>time.Duration(math.Pow(2, float64(attempt-1))) * time.Second\<close>, capped at 30 seconds.
  A \<^verbatim>\<open>time.Duration\<close> is an \<^verbatim>\<open>int64\<close> count of nanoseconds: the product wraps around
  and the comparison is signed. \<^verbatim>\<open>math.Pow(2, k)\<close> is the exact power of two, and its
  conversion to \<^verbatim>\<open>int64\<close> is exact as long as it fits, that is for \<open>k < 63\<close>; beyond,
  the language leaves the converted value to the implementation, and the model
  gives no duration (\<open>None\<close>).
\<close>

definition Second :: "64 word" where
  "Second = 1000000000"

definition backoff :: "int \<Rightarrow> 64 word option" where
  "backoff attempt =
     (let k = nat (attempt - 1)
      in if k < 63 then
           let b = (2 ^ k :: 64 word) * Second
           in if sint (30 * Second) < sint b then Some (30 * Second) else Some b
         else None)"

text \<open>
  \<^verbatim>\<open>doWithRetry\<close>: the loop \<^verbatim>\<open>for attempt := 0; attempt <= c.maxRetries; attempt++\<close>,
  entered at \<open>attempt\<close> with the current \<^verbatim>\<open>lastErr\<close> and destination. Each iteration
  takes the next answer of the environment. The counter is an unbounded \<open>int\<close>: it
  stays below \<open>2 ^ 63\<close> unless \<^verbatim>\<open>maxRetries\<close> is the largest \<^verbatim>\<open>int\<close> itself.
\<close>

function doWithRetry_loop ::
  "'r json_lib \<Rightarrow> (nat \<Rightarrow> attempt_env) \<Rightarrow> Client \<Rightarrow> string \<Rightarrow> string \<Rightarrow> nat option
     \<Rightarrow> int \<Rightarrow> error option \<Rightarrow> 'r option \<Rightarrow> world \<Rightarrow> error option \<times> 'r option \<times> world" where
  "doWithRetry_loop lib env c method path params attempt lastErr result w =
     (if attempt \<le> maxRetries c then
        let ae = env (clock w);
            w1 = w\<lparr>clock := Suc (clock w)\<rparr>
        in if 0 < attempt \<and> ctx_done ae \<noteq> None then (ctx_done ae, result, w1)
           else
             let w2 = (if 0 < attempt then w1\<lparr>slept := slept w1 @ [backoff attempt]\<rparr> else w1)
             in (case limiter_wait ae of
                   Some err \<Rightarrow> (Some (Wrapped ''utools: rate limiter: '' err []), result, w2)
                 | None \<Rightarrow>
                     (case do lib ae c method path params result w2 of
                        (lastErr', result', w3) \<Rightarrow>
                          if lastErr' = None then (None, result', w3)
                          else if \<not> isRetryableError lastErr' then (lastErr', result', w3)
                          else doWithRetry_loop lib env c method path params (attempt + 1)
                                 lastErr' result' w3))
      else (lastErr, result, w))"
  by pat_completeness auto
termination
  by (relation "measure (\<lambda>(lib, env, c, method, path, params, attempt, lastErr, result, w).
                 nat (maxRetries c + 1 - attempt))") auto

declare doWithRetry_loop.simps [simp del]

definition doWithRetry ::
  "'r json_lib \<Rightarrow> (nat \<Rightarrow> attempt_env) \<Rightarrow> Client \<Rightarrow> string \<Rightarrow> string \<Rightarrow> nat option
     \<Rightarrow> 'r option \<Rightarrow> world \<Rightarrow> error option \<times> 'r option \<times> world" where
  "doWithRetry lib env c method path params result w =
     doWithRetry_loop lib env c method path params 0 None result w"

text \<open>The state in which an iteration of the loop that starts in \<open>w\<close> runs its transport
  cycle: the environment's answer is taken, and before a retry the backoff is slept.\<close>

definition before_cycle :: "int \<Rightarrow> world \<Rightarrow> world" where
  "before_cycle attempt w =
     (if 0 < attempt then w\<lparr>clock := Suc (clock w), slept := slept w @ [backoff attempt]\<rparr>
      else w\<lparr>clock := Suc (clock w)\<rparr>)"

text \<open>\<^verbatim>\<open>doRawWithRetry\<close>: the same loop around \<^verbatim>\<open>doRaw\<close>; it returns the body
  (\<open>None\<close> is \<^verbatim>\<open>nil\<close>) and the error.\<close>

function doRawWithRetry_loop ::
  "'r json_lib \<Rightarrow> (nat \<Rightarrow> attempt_env) \<Rightarrow> Client \<Rightarrow> string \<Rightarrow> string \<Rightarrow> nat option
     \<Rightarrow> int \<Rightarrow> error option \<Rightarrow> world \<Rightarrow> string option \<times> error option \<times> world" where
  "doRawWithRetry_loop lib env c method path params attempt lastErr w =
     (if attempt \<le> maxRetries c then
        let ae = env (clock w);
            w1 = w\<lparr>clock := Suc (clock w)\<rparr>
        in if 0 < attempt \<and> ctx_done ae \<noteq> None then (None, ctx_done ae, w1)
           else
             let w2 = (if 0 < attempt then w1\<lparr>slept := slept w1 @ [backoff attempt]\<rparr> else w1)
             in (case limiter_wait ae of
                   Some err \<Rightarrow> (None, Some (Wrapped ''utools: rate limiter: '' err []), w2)
                 | None \<Rightarrow>
                     (case doRaw lib ae c method path params w2 of
                        (Inr body, w3) \<Rightarrow> (Some body, None, w3)
                      | (Inl err, w3) \<Rightarrow>
                          if \<not> isRetryableError (Some err) then (None, Some err, w3)
                          else doRawWithRetry_loop lib env c method path params (attempt + 1)
                                 (Some err) w3))
      else (None, lastErr, w))"
  by pat_completeness auto
termination
  by (relation "measure (\<lambda>(lib, env, c, method, path, params, attempt, lastErr, w).
                 nat (maxRetries c + 1 - attempt))") auto

declare doRawWithRetry_loop.simps [simp del]

definition doRawWithRetry ::
  "'r json_lib \<Rightarrow> (nat \<Rightarrow> attempt_env) \<Rightarrow> Client \<Rightarrow> string \<Rightarrow> string \<Rightarrow> nat option
     \<Rightarrow> world \<Rightarrow> string option \<times> error option \<times> world" where
  "doRawWithRetry lib env c method path params w =
     doRawWithRetry_loop lib env c method path params 0 None w"

definition Get ::
  "'r json_lib \<Rightarrow> (nat \<Rightarrow> attempt_env) \<Rightarrow> Client \<Rightarrow> string \<Rightarrow> nat option \<Rightarrow> 'r option \<Rightarrow> world
     \<Rightarrow> error option \<times> 'r option \<times> world" where
  "Get lib env c path params result w = doWithRetry lib env c ''GET'' path params result w"

definition Post ::
  "'r json_lib \<Rightarrow> (nat \<Rightarrow> attempt_env) \<Rightarrow> Client \<Rightarrow> string \<Rightarrow> nat option \<Rightarrow> 'r option \<Rightarrow> world
     \<Rightarrow> error option \<times> 'r option \<times> world" where
  "Post lib env c path params result w = doWithRetry lib env c ''POST'' path params result w"

definition GetRaw ::
  "'r json_lib \<Rightarrow> (nat \<Rightarrow> attempt_env) \<Rightarrow> Client \<Rightarrow> string \<Rightarrow> nat option \<Rightarrow> world
     \<Rightarrow> string option \<times> error option \<times> world" where
  "GetRaw lib env c path params w = doRawWithRetry lib env c ''GET'' path params w"


section \<open>The cursor extractor (cursor.go)\<close>

text \<open>
  A parsed JSON value as the gjson library presents it (\<^verbatim>\<open>gjson.Result\<close>): its type,
  for a string its content, for a number the text \<^verbatim>\<open>String()\<close> prints, for an array
  or an object its raw text and its children in document order.
\<close>

datatype json =
    JNull
  | JFalse
  | JTrue
  | JNumber string
  | JString string
  | JArray string "json list"
  | JObject string "(string \<times> json) list"

text \<open>\<^verbatim>\<open>Result.String()\<close>; \<open>None\<close> is the result of a path that does not exist.\<close>

fun String :: "json option \<Rightarrow> string" where
  "String None = []"
| "String (Some JNull) = []"
| "String (Some JFalse) = ''false''"
| "String (Some JTrue) = ''true''"
| "String (Some (JNumber s)) = s"
| "String (Some (JString s)) = s"
| "String (Some (JArray raw xs)) = raw"
| "String (Some (JObject raw kvs)) = raw"

text \<open>\<^verbatim>\<open>Result.Get\<close> for a path of plain member names separated by dots (the only
  kind the extractor uses on a value): the first member of that name, then on into it.
  An array or a scalar has no member.\<close>

fun member :: "json \<Rightarrow> string \<Rightarrow> json option" where
  "member (JObject raw kvs) k = map_of kvs k"
| "member v k = None"

fun get_path :: "json \<Rightarrow> string list \<Rightarrow> json option" where
  "get_path v [] = Some v"
| "get_path v (k # ks) = (case member v k of None \<Rightarrow> None | Some v' \<Rightarrow> get_path v' ks)"

text \<open>\<^verbatim>\<open>Result.ForEach\<close>: the values it passes to the iterator. For an array its
  elements, for an object its members' values, for any other existing value the
  value itself.\<close>

fun for_each :: "json \<Rightarrow> json list" where
  "for_each (JArray raw xs) = xs"
| "for_each (JObject raw kvs) = map snd kvs"
| "for_each v = [v]"

text \<open>
  What the library does with the text of a document: \<^verbatim>\<open>gjson.Parse\<close>, and the lookup
  \<^verbatim>\<open>gjson.Get(jsonStr, "..entries")\<close>. Both are taken from the environment. In gjson's
  path syntax the prefix \<^verbatim>\<open>..\<close> reads the text as JSON Lines, an array of the documents
  in it, and \<^verbatim>\<open>entries\<close> is then looked up in that array, where only an index or
  \<^verbatim>\<open>#\<close> selects anything: the lookup finds nothing, for every text. The properties
  below that depend on it assume this answer (\<open>Get_entries gj jsonStr = None\<close>).
\<close>

record gjson =
  Parse :: "string \<Rightarrow> json"
  Get_entries :: "string \<Rightarrow> json option"

text \<open>The body of the inner iterator of strategy 1 (lines 122-136), on the pair
  \<open>(next, prev)\<close>.\<close>

definition entry_item :: "json \<Rightarrow> string \<times> string \<Rightarrow> string \<times> string" where
  "entry_item item np =
     (let cursorType = String (get_path item [''cursorType'']);
          cursorType = (if cursorType = [] then String (get_path item [''content'', ''cursorType''])
                        else cursorType);
          val = String (get_path item [''value'']);
          val = (if val = [] then String (get_path item [''content'', ''value'']) else val)
      in if cursorType = ''Bottom'' then (val, snd np)
         else if cursorType = ''Top'' then (fst np, val)
         else np)"

text \<open>Strategy 1 (lines 117-141): every item of every entry, in order.\<close>

definition from_entries :: "json option \<Rightarrow> string \<times> string" where
  "from_entries entries =
     (case entries of
        None \<Rightarrow> ([], [])
      | Some es \<Rightarrow> fold (\<lambda>entry. fold entry_item (for_each entry)) (for_each es) ([], []))"

text \<open>\<^verbatim>\<open>findCursorDeep\<close>, with the two pointers as a pair passed through; the tests
  \<^verbatim>\<open>IsObject\<close> and \<^verbatim>\<open>IsArray\<close> are the cases of the value. The iterator
  over the children (the elements of an array, the members' values of an object) stops
  as soon as a child answers false.\<close>

primrec findCursorDeep :: "json \<Rightarrow> string \<times> string \<Rightarrow> bool \<times> string \<times> string"
  and deep_items :: "json list \<Rightarrow> string \<times> string \<Rightarrow> string \<times> string"
  and deep_members :: "(string \<times> json) list \<Rightarrow> string \<times> string \<Rightarrow> string \<times> string"
  and deep_member :: "string \<times> json \<Rightarrow> string \<times> string \<Rightarrow> bool \<times> string \<times> string" where
  "findCursorDeep JNull np = (True, np)"
| "findCursorDeep JFalse np = (True, np)"
| "findCursorDeep JTrue np = (True, np)"
| "findCursorDeep (JNumber s) np = (True, np)"
| "findCursorDeep (JString s) np = (True, np)"
| "findCursorDeep (JArray raw xs) np =
     (let np' = deep_items xs np in (fst np' = [] \<or> snd np' = [], np'))"
| "findCursorDeep (JObject raw kvs) np =
     (let cursorType = String (get_path (JObject raw kvs) [''cursorType'']);
          val = String (get_path (JObject raw kvs) [''value'']);
          np1 = (if cursorType = ''Bottom'' \<and> val \<noteq> [] \<and> fst np = [] then (val, snd np) else np);
          np2 = (if cursorType = ''Top'' \<and> val \<noteq> [] \<and> snd np1 = [] then (fst np1, val) else np1);
          np' = deep_members kvs np2
      in (fst np' = [] \<or> snd np' = [], np'))"
| "deep_items [] np = np"
| "deep_items (x # xs) np =
     (case findCursorDeep x np of (go_on, np') \<Rightarrow> if go_on then deep_items xs np' else np')"
| "deep_members [] np = np"
| "deep_members (kv # kvs) np =
     (case deep_member kv np of (go_on, np') \<Rightarrow> if go_on then deep_members kvs np' else np')"
| "deep_member (k, v) np = findCursorDeep v np"

text \<open>\<^verbatim>\<open>gjson.Parse(jsonStr).ForEach\<close> with \<^verbatim>\<open>findCursorDeep\<close> as the iterator
  (lines 165-167).\<close>

fun deep_search :: "json \<Rightarrow> string \<times> string \<Rightarrow> string \<times> string" where
  "deep_search (JArray raw xs) np = deep_items xs np"
| "deep_search (JObject raw kvs) np = deep_members kvs np"
| "deep_search v np = snd (findCursorDeep v np)"

definition extractCursors :: "gjson \<Rightarrow> string \<Rightarrow> string \<times> string" where
  "extractCursors gj jsonStr =
     (let doc = Parse gj jsonStr;
          (next, prev) = from_entries (Get_entries gj jsonStr);
          next = (if next = [] then
                    let n1 = String (get_path doc [''cursor_bottom'']);
                        n2 = (if n1 = [] then String (get_path doc [''next_cursor'']) else n1)
                    in if n2 = [] then String (get_path doc [''next_cursor_str'']) else n2
                  else next);
          prev = (if prev = [] then
                    let p1 = String (get_path doc [''cursor_top'']);
                        p2 = (if p1 = [] then String (get_path doc [''previous_cursor'']) else p1)
                    in if p2 = [] then String (get_path doc [''previous_cursor_str'']) else p2
                  else prev)
      in if next = [] then deep_search doc (next, prev) else (next, prev))"





section \<open>The page iterator (cursor.go)\<close>

record PageResult =
  RawData :: string
  NextCursor :: string
  PreviousCursor :: string

text \<open>\<^verbatim>\<open>PageIterator\<close>; \<open>baseParams\<close> is a reference into the store. The client is
  passed alongside.\<close>

record PageIterator =
  path :: string
  baseParams :: nat
  nextCursor :: string
  hasMore :: bool
  pageCount :: int
  maxPages :: int

definition NewPageIterator ::
  "string \<Rightarrow> nat option \<Rightarrow> int \<Rightarrow> world \<Rightarrow> PageIterator \<times> world" where
  "NewPageIterator p params maxPgs w =
     (let (copied, w1) = make_map w;
          w2 = copy_into copied params w1
      in (\<lparr>path = p, baseParams = copied, nextCursor = [], hasMore = True, pageCount = 0,
            maxPages = maxPgs\<rparr>, w2))"

text \<open>\<^verbatim>\<open>Next\<close>: the page (\<open>None\<close> is \<^verbatim>\<open>nil\<close>), the error, the iterator and the state
  after the call. The destination of the request is a \<^verbatim>\<open>json.RawMessage\<close>, initially
  empty.\<close>

definition Next ::
  "string json_lib \<Rightarrow> gjson \<Rightarrow> (nat \<Rightarrow> attempt_env) \<Rightarrow> Client \<Rightarrow> PageIterator \<Rightarrow> world
     \<Rightarrow> PageResult option \<times> error option \<times> PageIterator \<times> world" where
  "Next lib gj env c it w =
     (if \<not> hasMore it then (None, None, it, w)
      else if 0 < maxPages it \<and> maxPages it \<le> pageCount it then
        (None, None, it\<lparr>hasMore := False\<rparr>, w)
      else
        let (params, w1) = make_map w;
            w2 = copy_into params (Some (baseParams it)) w1;
            w3 = (if nextCursor it \<noteq> [] then map_assign params ''cursor'' (nextCursor it) w2
                  else w2)
        in (case Get lib env c (path it) (Some params) (Some []) w3 of
              (Some err, raw, w4) \<Rightarrow> (None, Some (Wrapped ''page iterator: '' err []), it, w4)
            | (None, raw, w4) \<Rightarrow>
                let it1 = it\<lparr>pageCount := pageCount it + 1\<rparr>;
                    rawData = (case raw of None \<Rightarrow> [] | Some r \<Rightarrow> r);
                    (next, prev) = extractCursors gj rawData;
                    result = \<lparr>RawData = rawData, NextCursor = next, PreviousCursor = prev\<rparr>
                in if next = [] \<or> next = nextCursor it then
                     (Some result, None, it1\<lparr>hasMore := False\<rparr>, w4)
                   else (Some result, None, it1\<lparr>nextCursor := next\<rparr>, w4)))"


text \<open>The effect of one call of \<^verbatim>\<open>Next\<close> on the iterator and the state.\<close>

definition Next_state ::
  "string json_lib \<Rightarrow> gjson \<Rightarrow> (nat \<Rightarrow> attempt_env) \<Rightarrow> Client \<Rightarrow> PageIterator \<times> world
     \<Rightarrow> PageIterator \<times> world" where
  "Next_state lib gj env c = (\<lambda>(it, w). snd (snd (Next lib gj env c it w)))"

section \<open>Concrete inputs\<close>

text \<open>
  The client of the repository's tests (\<^verbatim>\<open>newTestClient\<close>), a configuration with a
  negative retry count, a state whose store holds one caller's map at reference 0,
  and an environment in which the context stays live, the limiter admits every
  request and the server's answer to the \<open>i\<close>-th iteration is \<open>answers i\<close>.
\<close>

definition test_client :: Client where
  "test_client = \<lparr>baseURL = ''http://127.0.0.1:8080'', apiKey = ''test-key'', authToken = [],
                   ct0 = [], maxRetries = 2\<rparr>"

definition test_config :: Config where
  "test_config = \<lparr>BaseURL = ''http://127.0.0.1:8080/'', APIKey = ''test-key'', AuthToken = [],
                   CT0 = [], Timeout = 5000000000, MaxRetries = - 1\<rparr>"

definition start :: world where
  "start = \<lparr>heap = [[(''words'', ''bitcoin'')]], clock = 0, attempts = 0, slept = []\<rparr>"

definition served :: "(nat \<Rightarrow> exchange) \<Rightarrow> nat \<Rightarrow> attempt_env" where
  "served answers i =
     \<lparr>ctx_done = None, limiter_wait = None, parse_url = (\<lambda>u. None),
      new_request = (\<lambda>m u. None), http_do = (\<lambda>m u ps. answers i)\<rparr>"

text \<open>The environment of a server that gives the same answer every time.\<close>

definition answering :: "exchange \<Rightarrow> nat \<Rightarrow> attempt_env" where
  "answering x = served (\<lambda>i. x)"

text \<open>The response bodies of the tests and some variants, with what encoding/json
  makes of them when the destination is a map from strings to strings. The field
  \<^verbatim>\<open>code\<close> of \<open>body_plain\<close> is a string, which the envelope's \<^verbatim>\<open>int\<close> field refuses.\<close>

definition bs :: char where
  "bs = CHR 0x5C"

definition body_rate_limit :: string where
  \<open>body_rate_limit = ''{"code":88,"msg":"rate limit"}''\<close>

definition body_ok :: string where
  \<open>body_ok = ''{"code":1,"data":{"ok":"yes"},"msg":"SUCCESS"}''\<close>

definition data_hello :: string where
  \<open>data_hello = ''"{'' @ [bs] @ ''"hello'' @ [bs] @ ''":'' @ [bs] @ ''"world'' @ [bs] @ ''"}"''\<close>

definition body_hello :: string where
  \<open>body_hello = ''{"code":1,"data":'' @ data_hello @ '',"msg":"SUCCESS"}''\<close>

definition body_denied :: string where
  \<open>body_denied = ''{"code":5,"data":'' @ data_hello @ '',"msg":"denied"}''\<close>

definition body_bad :: string where
  \<open>body_bad = ''{"code":1,"data":"{bad}","msg":"SUCCESS"}''\<close>

definition body_list_data :: string where
  \<open>body_list_data = ''{"code":1,"data":[1,2],"msg":"SUCCESS"}''\<close>

definition body_list :: string where
  "body_list = ''[1,2]''"

definition body_plain :: string where
  \<open>body_plain = ''{"code":"x","hello":"world"}''\<close>

definition body_long :: string where
  "body_long = replicate 600 (CHR ''x'')"

definition err_value :: string where
  "err_value = ''invalid character x looking for beginning of value''"

definition err_syntax :: string where
  "err_syntax = ''invalid character b looking for beginning of object key string''"

definition err_type :: string where
  "err_type = ''json: cannot unmarshal array into Go value of type map[string]string''"

definition map_json :: "(string \<times> string) list json_lib" where
  \<open>map_json =
     \<lparr>unmarshal_errResp =
        (\<lambda>b. if b = body_rate_limit
              then Some \<lparr>Code_r = 88, Message_r = [], Msg_r = ''rate limit''\<rparr>
              else None),
      unmarshal_envelope =
        (\<lambda>b. if b = body_ok
                then Some \<lparr>Code_e = 1, Data = ''{"ok":"yes"}'', Msg = ''SUCCESS'', Result = []\<rparr>
              else if b = body_rate_limit
                then Some \<lparr>Code_e = 88, Data = [], Msg = ''rate limit'', Result = []\<rparr>
              else if b = body_hello
                then Some \<lparr>Code_e = 1, Data = data_hello, Msg = ''SUCCESS'', Result = []\<rparr>
              else if b = body_denied
                then Some \<lparr>Code_e = 5, Data = data_hello, Msg = ''denied'', Result = []\<rparr>
              else if b = body_bad
                then Some \<lparr>Code_e = 1, Data = ''"{bad}"'', Msg = ''SUCCESS'', Result = []\<rparr>
              else if b = body_list_data
                then Some \<lparr>Code_e = 1, Data = ''[1,2]'', Msg = ''SUCCESS'', Result = []\<rparr>
              else None),
      unmarshal_string =
        (\<lambda>d. if d = data_hello then Some ''{"hello":"world"}''
              else if d = ''"{bad}"'' then Some ''{bad}''
              else None),
      unmarshal_result =
        (\<lambda>d r. if d = ''{"hello":"world"}'' then (None, [(''hello'', ''world'')])
                else if d = ''{"ok":"yes"}'' then (None, [(''ok'', ''yes'')])
                else if d = body_plain then (None, [(''code'', ''x''), (''hello'', ''world'')])
                else if d = body_long then (Some err_value, r)
                else if d = ''{bad}'' then (Some err_syntax, r)
                else (Some err_type, r))\<rparr>\<close>

text \<open>
  Two servers for the retry driver. The first answers 429 with code 88, then 200 with
  an envelope of code 88, then the success envelope; the second ends with a 403
  instead. \<open>retry_state i\<close> is the state in which the \<open>i\<close>-th iteration of a request
  for the caller's map at reference 0 starts, after \<open>i\<close> failed cycles.
\<close>

definition retry_env :: "nat \<Rightarrow> attempt_env" where
  "retry_env =
     served (\<lambda>i. if i = 0 then Response 429 body_rate_limit
                 else if i = 1 then Response 200 body_rate_limit
                 else Response 200 body_ok)"

definition failing_env :: "nat \<Rightarrow> attempt_env" where
  "failing_env =
     served (\<lambda>i. if i = 0 then Response 429 body_rate_limit
                 else if i = 1 then Response 200 body_rate_limit
                 else Response 403 body_list)"

definition retry_state :: "nat \<Rightarrow> world" where
  "retry_state i =
     \<lparr>heap = [(''words'', ''bitcoin'')]
               # replicate i [(''words'', ''bitcoin''), (''apiKey'', ''test-key'')],
      clock = i, attempts = i, slept = map (\<lambda>j. backoff (int j)) [1..<i]\<rparr>"

definition retry_error :: "nat \<Rightarrow> error" where
  "retry_error i =
     ApiErr (if i = 0 then \<lparr>StatusCode = 429, Code = 88, Message = ''rate limit'',
                             RawBody = body_rate_limit\<rparr>
             else if i = 1 then \<lparr>StatusCode = 200, Code = 88, Message = ''rate limit'',
                                  RawBody = body_rate_limit\<rparr>
             else \<lparr>StatusCode = 403, Code = 0, Message = body_list, RawBody = body_list\<rparr>)"

text \<open>Pages for the iterator, whose destination is a \<^verbatim>\<open>json.RawMessage\<close> (it receives
  the text of the value as it is), and what gjson makes of their data.\<close>

definition data_page :: string where
  \<open>data_page = ''{"next_cursor":"c1"}''\<close>

definition body_page :: string where
  \<open>body_page = ''{"code":1,"data":'' @ data_page @ '',"msg":"SUCCESS"}''\<close>

definition raw_json :: "string json_lib" where
  "raw_json =
     \<lparr>unmarshal_errResp = (\<lambda>b. None),
      unmarshal_envelope =
        (\<lambda>b. if b = body_page
              then Some \<lparr>Code_e = 1, Data = data_page, Msg = ''SUCCESS'', Result = []\<rparr>
              else None),
      unmarshal_string = (\<lambda>d. None),
      unmarshal_result = (\<lambda>d r. (None, d))\<rparr>"

text \<open>Documents with cursor entries: the Bottom cursors A and then B; the same below a
  top-level \<^verbatim>\<open>next_cursor\<close>; a Bottom cursor without a value and then B.\<close>

definition item_A :: json where
  \<open>item_A = JObject ''{"cursorType":"Bottom","value":"A"}''
              [(''cursorType'', JString ''Bottom''), (''value'', JString ''A'')]\<close>

definition item_B :: json where
  \<open>item_B = JObject ''{"cursorType":"Bottom","value":"B"}''
              [(''cursorType'', JString ''Bottom''), (''value'', JString ''B'')]\<close>

definition item_E :: json where
  \<open>item_E = JObject ''{"cursorType":"Bottom","value":""}''
              [(''cursorType'', JString ''Bottom''), (''value'', JString [])]\<close>

definition entries_AB :: json where
  \<open>entries_AB =
     JArray ''[{"content":{"cursorType":"Bottom","value":"A"}},{"content":{"cursorType":"Bottom","value":"B"}}]''
       [JObject ''{"content":{"cursorType":"Bottom","value":"A"}}'' [(''content'', item_A)],
        JObject ''{"content":{"cursorType":"Bottom","value":"B"}}'' [(''content'', item_B)]]\<close>

definition entries_EB :: json where
  \<open>entries_EB =
     JArray ''[{"content":{"cursorType":"Bottom","value":""}},{"content":{"cursorType":"Bottom","value":"B"}}]''
       [JObject ''{"content":{"cursorType":"Bottom","value":""}}'' [(''content'', item_E)],
        JObject ''{"content":{"cursorType":"Bottom","value":"B"}}'' [(''content'', item_B)]]\<close>

definition data_AB :: string where
  \<open>data_AB = ''{"entries":[{"content":{"cursorType":"Bottom","value":"A"}},{"content":{"cursorType":"Bottom","value":"B"}}]}''\<close>

definition data_NAB :: string where
  \<open>data_NAB = ''{"next_cursor":"N","entries":[{"content":{"cursorType":"Bottom","value":"A"}},{"content":{"cursorType":"Bottom","value":"B"}}]}''\<close>

definition data_EB :: string where
  \<open>data_EB = ''{"entries":[{"content":{"cursorType":"Bottom","value":""}},{"content":{"cursorType":"Bottom","value":"B"}}]}''\<close>

definition test_gjson :: gjson where
  "test_gjson =
     \<lparr>Parse = (\<lambda>s. if s = data_page then JObject data_page [(''next_cursor'', JString ''c1'')]
                    else if s = data_AB then JObject data_AB [(''entries'', entries_AB)]
                    else if s = data_NAB
                      then JObject data_NAB [(''next_cursor'', JString ''N''), (''entries'', entries_AB)]
                    else if s = data_EB then JObject data_EB [(''entries'', entries_EB)]
                    else JNull),
      Get_entries = (\<lambda>s. None)\<rparr>"

text \<open>An iterator that has fetched one page and holds the cursor that page gave.\<close>

definition test_iterator :: PageIterator where
  "test_iterator = \<lparr>path = ''/api/base/apitools/search'', baseParams = 0, nextCursor = ''c1'',
                     hasMore = True, pageCount = 1, maxPages = 10\<rparr>"


section \<open>What a transport cycle does to the state\<close>

lemma map_assign_fields [simp]:
  "clock (map_assign a k v w) = clock w"
  "attempts (map_assign a k v w) = attempts w"
  "slept (map_assign a k v w) = slept w"
  "length (heap (map_assign a k v w)) = length (heap w)"
  by (simp_all add: map_assign_def)

lemma prefix_list_update:
  "prefix xs ys \<Longrightarrow> length xs \<le> a \<Longrightarrow> prefix xs (ys[a := v])"
  by (auto simp: prefix_def list_update_append)

lemma map_assign_prefix:
  "prefix h (heap w) \<Longrightarrow> length h \<le> a \<Longrightarrow> prefix h (heap (map_assign a k v w))"
  by (simp add: map_assign_def prefix_list_update)

lemma fold_assign_fields:
  "clock (fold (\<lambda>(k, v). map_assign a k v) kvs w) = clock w \<and>
   attempts (fold (\<lambda>(k, v). map_assign a k v) kvs w) = attempts w \<and>
   slept (fold (\<lambda>(k, v). map_assign a k v) kvs w) = slept w \<and>
   length (heap (fold (\<lambda>(k, v). map_assign a k v) kvs w)) = length (heap w)"
  by (induction kvs arbitrary: w) (auto simp: split_def)

lemma fold_assign_prefix:
  "prefix h (heap w) \<Longrightarrow> length h \<le> a \<Longrightarrow>
   prefix h (heap (fold (\<lambda>(k, v). map_assign a k v) kvs w))"
  by (induction kvs arbitrary: w) (auto simp: split_def map_assign_prefix)

lemma copy_into_fields [simp]:
  "clock (copy_into a src w) = clock w"
  "attempts (copy_into a src w) = attempts w"
  "slept (copy_into a src w) = slept w"
  "length (heap (copy_into a src w)) = length (heap w)"
  by (simp_all add: copy_into_def fold_assign_fields)

lemma copy_into_prefix:
  "prefix h (heap w) \<Longrightarrow> length h \<le> a \<Longrightarrow> prefix h (heap (copy_into a src w))"
  by (simp add: copy_into_def fold_assign_prefix)

lemma make_map_fields:
  "make_map w = (a, w') \<Longrightarrow>
     a = length (heap w) \<and> clock w' = clock w \<and> attempts w' = attempts w \<and>
     slept w' = slept w \<and> heap w' = heap w @ [[]]"
  by (auto simp: make_map_def)

lemma request_world:
  assumes "request ae c method pth params w = (x, w')"
  shows "attempts w' = Suc (attempts w) \<and> clock w' = clock w \<and> slept w' = slept w \<and>
         prefix (heap w) (heap w')"
proof -
  let ?w1 = "w\<lparr>heap := heap w @ [[]]\<rparr>"
  let ?m = "length (heap w)"
  let ?w3 = "map_assign ?m ''apiKey'' (apiKey c) (copy_into ?m params ?w1)"
  have w': "w' = ?w3\<lparr>attempts := Suc (attempts ?w3)\<rparr>"
    using assms by (auto simp: request_def make_map_def Let_def split: if_splits option.splits)
  have "prefix (heap w) (heap ?w3)"
    by (intro map_assign_prefix copy_into_prefix) simp_all
  then show ?thesis by (simp add: w')
qed

lemma do_world:
  assumes "do lib ae c method pth params result w = (err, res, w')"
  shows "attempts w' = Suc (attempts w) \<and> clock w' = clock w \<and> slept w' = slept w \<and>
         prefix (heap w) (heap w')"
proof -
  obtain x where "request ae c method pth params w = (x, w')"
    using assms by (auto simp: do_def split: prod.splits sum.splits if_splits option.splits)
  then show ?thesis by (rule request_world)
qed

lemma doRaw_world:
  assumes "doRaw lib ae c method pth params w = (x, w')"
  shows "attempts w' = Suc (attempts w) \<and> clock w' = clock w \<and> slept w' = slept w \<and>
         prefix (heap w) (heap w')"
proof -
  obtain y where "request ae c method pth params w = (y, w')"
    using assms by (auto simp: doRaw_def split: prod.splits sum.splits if_splits)
  then show ?thesis by (rule request_world)
qed


lemma loop_retry_step:
  assumes "attempt \<le> maxRetries c"
    and "0 < attempt \<Longrightarrow> ctx_done (env (clock w)) = None"
    and "limiter_wait (env (clock w)) = None"
    and "do lib (env (clock w)) c method pth params result
           (if 0 < attempt then w\<lparr>clock := Suc (clock w), slept := slept w @ [backoff attempt]\<rparr>
            else w\<lparr>clock := Suc (clock w)\<rparr>) = (Some e, r', w3)"
    and "isRetryableError (Some e)"
  shows "doWithRetry_loop lib env c method pth params attempt lastErr result w =
         doWithRetry_loop lib env c method pth params (attempt + 1) (Some e) r' w3"
  using assms
  by (subst doWithRetry_loop.simps) (auto simp: Let_def)

lemma loop_final_step:
  assumes "attempt \<le> maxRetries c"
    and "0 < attempt \<Longrightarrow> ctx_done (env (clock w)) = None"
    and "limiter_wait (env (clock w)) = None"
    and "do lib (env (clock w)) c method pth params result
           (if 0 < attempt then w\<lparr>clock := Suc (clock w), slept := slept w @ [backoff attempt]\<rparr>
            else w\<lparr>clock := Suc (clock w)\<rparr>) = (le, r', w3)"
    and "\<not> isRetryableError le"
  shows "doWithRetry_loop lib env c method pth params attempt lastErr result w = (le, r', w3)"
  using assms
  by (subst doWithRetry_loop.simps) (auto simp: Let_def isRetryableError_def)

lemma loop_exhausted:
  "\<not> attempt \<le> maxRetries c \<Longrightarrow>
   doWithRetry_loop lib env c method pth params attempt lastErr result w = (lastErr, result, w)"
  by (subst doWithRetry_loop.simps) simp



section \<open>The error classifier\<close>

text \<open>
  Claim C3: an \<^verbatim>\<open>APIError\<close> whose HTTP status is 401 is never retryable, whatever its
  business code. The classifier does not look at the status 401: \<^verbatim>\<open>IsRetryable\<close> asks
  \<^verbatim>\<open>IsRateLimited\<close>, which answers true for the business code 88 under any status.
  A 401 response whose body carries code 88 is classified retryable and the request
  is sent three times by the test client.
\<close>

theorem unauthorized_with_rate_limit_code_is_retryable:
  "IsUnauthorized \<lparr>StatusCode = 401, Code = 88, Message = ''rate limit'', RawBody = body_rate_limit\<rparr>
   \<and> isRetryableError
         (Some (ApiErr \<lparr>StatusCode = 401, Code = 88, Message = ''rate limit'',
                         RawBody = body_rate_limit\<rparr>))
   \<and> fst (do map_json (answering (Response 401 body_rate_limit) 0) test_client ''GET''
             ''/api/base/apitools/homeTimeline'' None (Some []) start)
       = Some (ApiErr \<lparr>StatusCode = 401, Code = 88, Message = ''rate limit'',
                        RawBody = body_rate_limit\<rparr>)
   \<and> attempts (snd (snd (Get map_json (answering (Response 401 body_rate_limit)) test_client
                            ''/api/base/apitools/homeTimeline'' None (Some []) start))) = 3"
  by code_simp

text \<open>With any other business code a 401 is not retried.\<close>

lemma unauthorized_other_code_not_retryable:
  "StatusCode e = 401 \<Longrightarrow> Code e \<noteq> 88 \<Longrightarrow> \<not> isRetryableError (Some (ApiErr e))"
  by (simp add: isRetryableError_def errors_Is_def IsRetryable_def IsRateLimited_def
      IsForbidden_def)

section \<open>Backoff\<close>

text \<open>Up to retry 34 the backoff is the smaller of \<open>2 ^ (n - 1)\<close> seconds and 30 seconds.\<close>

lemma backoff_small:
  assumes "1 \<le> n" and "n \<le> 34"
  shows "map_option sint (backoff n) = Some (min (2 ^ nat (n - 1)) 30 * 1000000000)"
proof -
  have "n \<in> {1..34}" using assms by simp
  also have "{1..34::int} = set [1..34]" by simp
  finally have "n \<in> set [1..34]" .
  then have "list_all (\<lambda>n. map_option sint (backoff n) = Some (min (2 ^ nat (n - 1)) 30 * 1000000000)) [1..34]
     \<Longrightarrow> ?thesis" by (simp add: list_all_iff)
  moreover have "list_all (\<lambda>n. map_option sint (backoff n) = Some (min (2 ^ nat (n - 1)) 30 * 1000000000)) [1..34]"
    by code_simp
  ultimately show ?thesis by blast
qed

text \<open>
  Claim C9: before every retry \<open>n \<ge> 1\<close> the backoff slept is the smaller of
  \<open>2 ^ (n - 1)\<close> seconds and 30 seconds. At retry 35 the product of \<open>2 ^ 34\<close> and
  the nanoseconds of a second no longer fits 64 bits: it wraps to a negative
  duration, which the cap at 30 seconds lets through. Retry 34 still sleeps 30
  seconds.
\<close>

theorem backoff_overflows_at_attempt_35:
  "map_option sint (backoff 34) = Some 30000000000 \<and>
   map_option sint (backoff 35) = Some (- 1266874889709551616)"
  by code_simp


section \<open>The retry driver\<close>

lemma NewClient_maxRetries: "NewClient cfg = Inr c \<Longrightarrow> 0 \<le> maxRetries c"
  by (auto simp: NewClient_def Validate_def Let_def DefaultMaxRetries_def
      split: sum.splits if_splits)

text \<open>
  Claim C2: when the first transport cycle fails with an error the classifier calls
  non-retryable, \<^verbatim>\<open>doWithRetry\<close> returns that error after exactly one cycle, for every
  retry count a client can have: the client comes from \<^verbatim>\<open>NewClient\<close>, whose
  configuration may hold any \<^verbatim>\<open>MaxRetries\<close>, negative ones included.
\<close>

theorem doWithRetry_non_retryable_once:
  assumes "NewClient cfg = Inr c"
    and "limiter_wait (env (clock w)) = None"
    and "do lib (env (clock w)) c method pth params result (w\<lparr>clock := Suc (clock w)\<rparr>)
           = (Some e, r', w')"
    and "\<not> isRetryableError (Some e)"
  shows "doWithRetry lib env c method pth params result w = (Some e, r', w') \<and>
         attempts w' = attempts w + 1"
proof -
  have m: "0 \<le> maxRetries c" using assms(1) by (rule NewClient_maxRetries)
  have "doWithRetry_loop lib env c method pth params 0 None result w = (Some e, r', w')"
    using m assms(2-4)
    by (intro loop_final_step [where env = env and w = w]) simp_all
  moreover have "attempts w' = Suc (attempts w)"
    using do_world [OF assms(3)] by simp
  ultimately show ?thesis by (simp add: doWithRetry_def)
qed


text \<open>The test \<^verbatim>\<open>TestDoWithRetryDoesNotRetryUnmarshalError\<close>, with a configured retry
  count of -1 (which \<^verbatim>\<open>Validate\<close> turns into 3).\<close>

theorem doWithRetry_non_retryable_once_witness:
  "NewClient test_config = Inr (test_client\<lparr>maxRetries := 3\<rparr>) \<and>
   doWithRetry map_json (served (\<lambda>i. Response 200 body_bad)) (test_client\<lparr>maxRetries := 3\<rparr>)
     ''GET'' ''/bad'' None (Some []) start
   = (Some (Wrapped ''utools: unmarshal inner data: '' (JsonErr err_syntax) '' (data: {bad})''),
      Some [],
      start\<lparr>heap := heap start @ [[(''apiKey'', ''test-key'')]], clock := 1, attempts := 1\<rparr>)"
proof -
  let ?c = "test_client\<lparr>maxRetries := 3\<rparr>"
  let ?env = "served (\<lambda>i. Response 200 body_bad)"
  let ?e = "Wrapped ''utools: unmarshal inner data: '' (JsonErr err_syntax) '' (data: {bad})''"
  let ?w' = "start\<lparr>heap := heap start @ [[(''apiKey'', ''test-key'')]], clock := 1, attempts := 1\<rparr>"
  have n: "NewClient test_config = Inr ?c"
    by (simp add: NewClient_def Validate_def test_config_def test_client_def TrimRight_def
        DefaultMaxRetries_def Let_def)
  have l: "limiter_wait (?env (clock start)) = None" by (simp add: served_def)
  have d: "do map_json (?env (clock start)) ?c ''GET'' ''/bad'' None (Some [])
             (start\<lparr>clock := Suc (clock start)\<rparr>) = (Some ?e, Some [], ?w')"
    by code_simp
  have r: "\<not> isRetryableError (Some ?e)"
    by (simp add: isRetryableError_def errors_Is_def)
  show ?thesis
    using n doWithRetry_non_retryable_once [where env = ?env and w = start, OF n l d r] by simp
qed


section \<open>Unwrapping the envelope\<close>

lemma Truncate_cap: "length (Truncate s 500) \<le> 503 \<and> take 500 (Truncate s 500) = take 500 s"
  by (simp add: Truncate_def)

lemma wrapped_json_not_retryable: "\<not> isRetryableError (Some (Wrapped p (JsonErr m) t))"
  by (simp add: isRetryableError_def errors_Is_def)

text \<open>
  Claim C4: for a response with a status in 200..299 and a result destination, whose
  body parses as an envelope with a code other than 0 and 1, \<^verbatim>\<open>do\<close> returns an
  \<^verbatim>\<open>APIError\<close> with the response's status, the envelope's code as business code and
  its \<^verbatim>\<open>msg\<close> as message, and the destination keeps the content it had.
\<close>

theorem business_failure_returns_APIError:
  assumes "request ae c method pth params w = (Inr (status, body), w')"
    and "200 \<le> status" and "status < 300"
    and "unmarshal_envelope lib body = Some env"
    and "Code_e env \<noteq> 0" and "Code_e env \<noteq> 1"
  shows "do lib ae c method pth params (Some r) w =
           (Some (ApiErr \<lparr>StatusCode = status, Code = Code_e env, Message = Msg env,
                           RawBody = body\<rparr>), Some r, w')"
  using assms by (simp add: do_def unwrap_def)

text \<open>An envelope with code 5 arriving with status 200.\<close>

theorem business_failure_returns_APIError_witness:
  "do map_json (answering (Response 200 body_denied) 0) test_client ''GET'' ''/raw'' (Some 0)
     (Some [(''old'', ''content'')]) start =
   (Some (ApiErr \<lparr>StatusCode = 200, Code = 5, Message = ''denied'', RawBody = body_denied\<rparr>),
    Some [(''old'', ''content'')],
    start\<lparr>heap := heap start @ [[(''words'', ''bitcoin''), (''apiKey'', ''test-key'')]],
          attempts := 1\<rparr>)"
proof -
  let ?w' = "start\<lparr>heap := heap start @ [[(''words'', ''bitcoin''), (''apiKey'', ''test-key'')]],
          attempts := 1\<rparr>"
  let ?env = "\<lparr>Code_e = 5, Data = data_hello, Msg = ''denied'', Result = []\<rparr>"
  have r: "request (answering (Response 200 body_denied) 0) test_client ''GET'' ''/raw'' (Some 0) start
             = (Inr (200, body_denied), ?w')"
    by code_simp
  have e: "unmarshal_envelope map_json body_denied = Some ?env"
    by code_simp
  have c: "Code_e ?env \<noteq> 0" "Code_e ?env \<noteq> 1" by simp_all
  show ?thesis
    using business_failure_returns_APIError [OF r _ _ e c, of "[(''old'', ''content'')]"] by simp
qed

text \<open>
  Claim C5, as stated: every envelope of a 2xx response whose \<^verbatim>\<open>data\<close> begins with a
  quote is decoded twice into the destination. It fails for an envelope that reports
  a business failure: the body below has code 5 and the same quoted \<^verbatim>\<open>data\<close> as the
  test's body; the check of the code comes first, \<^verbatim>\<open>do\<close> returns the \<^verbatim>\<open>APIError\<close> and
  the destination stays empty, although the two decodings would have given the map.
\<close>

theorem quoted_data_of_failure_envelope_not_decoded:
  \<open>unmarshal_envelope map_json body_denied =
     Some \<lparr>Code_e = 5, Data = data_hello, Msg = ''denied'', Result = []\<rparr>
   \<and> quoted data_hello
   \<and> unmarshal_string map_json data_hello = Some ''{"hello":"world"}''
   \<and> unmarshal_result map_json ''{"hello":"world"}'' [] = (None, [(''hello'', ''world'')])
   \<and> do map_json (answering (Response 200 body_denied) 0) test_client ''GET'' ''/raw'' None
        (Some []) start =
      (Some (ApiErr \<lparr>StatusCode = 200, Code = 5, Message = ''denied'', RawBody = body_denied\<rparr>),
       Some [],
       start\<lparr>heap := heap start @ [[(''apiKey'', ''test-key'')]], attempts := 1\<rparr>)\<close>
  by code_simp

text \<open>
  Claim C5, amended: for a 2xx response with a result destination whose envelope has
  code 0 or 1 and a \<^verbatim>\<open>data\<close> field that begins with a quote and decodes as a JSON
  string, \<^verbatim>\<open>do\<close> decodes that string into the destination: the outcome is the outcome
  of that second decoding.
\<close>

theorem quoted_data_double_decode:
  assumes "request ae c method pth params w = (Inr (status, body), w')"
    and "200 \<le> status" and "status < 300"
    and "unmarshal_envelope lib body = Some env"
    and "Code_e env = 0 \<or> Code_e env = 1"
    and "quoted (Data env)"
    and "unmarshal_string lib (Data env) = Some dataStr"
  shows "do lib ae c method pth params (Some r) w =
           (case unmarshal_result lib dataStr r of
              (None, r') \<Rightarrow> (None, Some r', w')
            | (Some m, r') \<Rightarrow>
                (Some (Wrapped ''utools: unmarshal inner data: '' (JsonErr m)
                         ('' (data: '' @ Truncate dataStr 500 @ '')'')), Some r', w'))"
proof -
  have "0 < length (Data env)" using assms(6) by (cases "Data env") (simp_all add: quoted_def)
  then show ?thesis
    using assms by (auto simp: do_def unwrap_def split: prod.splits option.splits)
qed

text \<open>The body of \<^verbatim>\<open>TestGetRawReturnsHTTPBody\<close> decoded into a map gives the map
  from hello to world.\<close>

theorem quoted_data_double_decode_witness:
  \<open>do map_json (answering (Response 200 body_hello) 0) test_client ''GET'' ''/raw'' None
     (Some []) start =
   (None, Some [(''hello'', ''world'')],
    start\<lparr>heap := heap start @ [[(''apiKey'', ''test-key'')]], attempts := 1\<rparr>)\<close>
proof -
  let ?w' = "start\<lparr>heap := heap start @ [[(''apiKey'', ''test-key'')]], attempts := 1\<rparr>"
  let ?env = "\<lparr>Code_e = 1, Data = data_hello, Msg = ''SUCCESS'', Result = []\<rparr>"
  have r: "request (answering (Response 200 body_hello) 0) test_client ''GET'' ''/raw'' None start
             = (Inr (200, body_hello), ?w')"
    by code_simp
  have e: "unmarshal_envelope map_json body_hello = Some ?env"
    by code_simp
  have c: "Code_e ?env = 0 \<or> Code_e ?env = 1" by simp
  have q: "quoted (Data ?env)" by code_simp
  have s: \<open>unmarshal_string map_json (Data ?env) = Some ''{"hello":"world"}''\<close> by code_simp
  have u: \<open>unmarshal_result map_json ''{"hello":"world"}'' [] = (None, [(''hello'', ''world'')])\<close>
    by code_simp
  show ?thesis
    using quoted_data_double_decode [OF r _ _ e c q s, of "[]"] u by simp
qed

section \<open>The caller's parameters\<close>

text \<open>Every function of the pipeline leaves the maps that exist at the call as they
  are: it writes only to maps it has made itself.\<close>

lemma prefix_nth: "prefix xs ys \<Longrightarrow> a < length xs \<Longrightarrow> ys ! a = xs ! a"
  by (auto simp: prefix_def nth_append)

lemma doWithRetry_loop_heap:
  "prefix (heap w)
     (heap (snd (snd (doWithRetry_loop lib env c meth pth params attempt lastErr result w))))"
proof (induction lib env c meth pth params attempt lastErr result w
    rule: doWithRetry_loop.induct)
  case (1 lib env c meth pth params attempt lastErr result w)
  let ?ae = "env (clock w)"
  let ?w1 = "w\<lparr>clock := Suc (clock w)\<rparr>"
  let ?w2 = "if 0 < attempt then ?w1\<lparr>slept := slept ?w1 @ [backoff attempt]\<rparr> else ?w1"
  obtain e r w3 where d: "do lib ?ae c meth pth params result ?w2 = (e, r, w3)"
    using prod_cases3 by blast
  have p3: "prefix (heap w) (heap w3)"
    using do_world [OF d] by (simp split: if_splits)
  show ?case
  proof (cases "attempt \<le> maxRetries c \<and> \<not> (0 < attempt \<and> ctx_done ?ae \<noteq> None) \<and>
                limiter_wait ?ae = None \<and> e \<noteq> None \<and> isRetryableError e")
    case True
    have "prefix (heap w3)
            (heap (snd (snd (doWithRetry_loop lib env c meth pth params (attempt + 1) e r w3))))"
      using True d by (intro "1.IH" [where x = ?ae and xa = ?w1 and xb = ?w2]) auto
    then have "prefix (heap w)
            (heap (snd (snd (doWithRetry_loop lib env c meth pth params (attempt + 1) e r w3))))"
      using p3 by (rule prefix_order.trans [rotated])
    moreover have "doWithRetry_loop lib env c meth pth params attempt lastErr result w =
                   doWithRetry_loop lib env c meth pth params (attempt + 1) e r w3"
      using True d by (subst doWithRetry_loop.simps) (auto simp: Let_def)
    ultimately show ?thesis by simp
  next
    case False
    then show ?thesis
      using d p3
      by (subst doWithRetry_loop.simps) (auto simp: Let_def split: option.splits)
  qed
qed

lemma doRawWithRetry_loop_heap:
  "prefix (heap w)
     (heap (snd (snd (doRawWithRetry_loop lib env c meth pth params attempt lastErr w))))"
proof (induction lib env c meth pth params attempt lastErr w
    rule: doRawWithRetry_loop.induct)
  case (1 lib env c meth pth params attempt lastErr w)
  let ?ae = "env (clock w)"
  let ?w1 = "w\<lparr>clock := Suc (clock w)\<rparr>"
  let ?w2 = "if 0 < attempt then ?w1\<lparr>slept := slept ?w1 @ [backoff attempt]\<rparr> else ?w1"
  obtain x w3 where d: "doRaw lib ?ae c meth pth params ?w2 = (x, w3)"
    by (cases "doRaw lib ?ae c meth pth params ?w2") blast
  have p3: "prefix (heap w) (heap w3)"
    using doRaw_world [OF d] by (simp split: if_splits)
  show ?case
  proof (cases "attempt \<le> maxRetries c \<and> \<not> (0 < attempt \<and> ctx_done ?ae \<noteq> None) \<and>
                limiter_wait ?ae = None \<and> (\<exists>err. x = Inl err \<and> isRetryableError (Some err))")
    case True
    then obtain err where x: "x = Inl err" and re: "isRetryableError (Some err)" by blast
    have "prefix (heap w3)
            (heap (snd (snd (doRawWithRetry_loop lib env c meth pth params (attempt + 1)
               (Some err) w3))))"
      using True d x re by (intro "1.IH" [where x = ?ae and xa = ?w1 and xb = ?w2]) auto
    then have "prefix (heap w)
            (heap (snd (snd (doRawWithRetry_loop lib env c meth pth params (attempt + 1)
               (Some err) w3))))"
      using p3 by (rule prefix_order.trans [rotated])
    moreover have "doRawWithRetry_loop lib env c meth pth params attempt lastErr w =
                   doRawWithRetry_loop lib env c meth pth params (attempt + 1) (Some err) w3"
      using True d x re by (subst doRawWithRetry_loop.simps) (auto simp: Let_def)
    ultimately show ?thesis by simp
  next
    case False
    then show ?thesis
      using d p3
      by (subst doRawWithRetry_loop.simps) (auto simp: Let_def split: option.splits sum.splits)
  qed
qed


lemma Get_heap: "prefix (heap w) (heap (snd (snd (Get lib env c p params result w))))"
  by (simp add: Get_def doWithRetry_def doWithRetry_loop_heap)

lemma Post_heap: "prefix (heap w) (heap (snd (snd (Post lib env c p params result w))))"
  by (simp add: Post_def doWithRetry_def doWithRetry_loop_heap)

lemma GetRaw_heap: "prefix (heap w) (heap (snd (snd (GetRaw lib env c p params w))))"
  by (simp add: GetRaw_def doRawWithRetry_def doRawWithRetry_loop_heap)

lemma NewPageIterator_heap:
  "prefix (heap w) (heap (snd (NewPageIterator p params n w))) \<and>
   baseParams (fst (NewPageIterator p params n w)) = length (heap w)"
proof -
  have "prefix (heap w) (heap (copy_into (length (heap w)) params (w\<lparr>heap := heap w @ [[]]\<rparr>)))"
    by (intro copy_into_prefix) simp_all
  then show ?thesis by (simp add: NewPageIterator_def make_map_def)
qed

lemma Next_heap: "prefix (heap w) (heap (snd (snd (snd (Next lib gj env c it w)))))"
proof -
  let ?m = "length (heap w)"
  let ?w2 = "copy_into ?m (Some (baseParams it)) (w\<lparr>heap := heap w @ [[]]\<rparr>)"
  let ?w3 = "if nextCursor it \<noteq> [] then map_assign ?m ''cursor'' (nextCursor it) ?w2 else ?w2"
  have p2: "prefix (heap w) (heap ?w2)"
    by (intro copy_into_prefix) simp_all
  have p3: "prefix (heap w) (heap ?w3)"
    using p2 by (simp add: map_assign_prefix)
  have "prefix (heap ?w3) (heap (snd (snd (Get lib env c (path it) (Some ?m) (Some []) ?w3))))"
    by (rule Get_heap)
  then have "prefix (heap w) (heap (snd (snd (Get lib env c (path it) (Some ?m) (Some []) ?w3))))"
    using p3 by (rule prefix_order.trans [rotated])
  then show ?thesis
    by (auto simp: Next_def make_map_def Let_def split_def split: prod.splits option.splits)
qed

text \<open>
  Claim C10: \<^verbatim>\<open>Get\<close>, \<^verbatim>\<open>Post\<close>, \<^verbatim>\<open>GetRaw\<close> and \<^verbatim>\<open>NewPageIterator\<close> never change the map
  the caller passes: after the call it holds the entries it held before. The API key
  and the cursor go into maps made during the call; the iterator keeps a copy of its
  own, at a reference different from the caller's, and \<^verbatim>\<open>Next\<close> changes neither that
  copy nor any other map that existed before.
\<close>

theorem callers_map_unchanged:
  assumes "a < length (heap w)"
  shows "heap (snd (snd (Get lib env c p (Some a) result w))) ! a = heap w ! a
    \<and> heap (snd (snd (Post lib env c p (Some a) result w))) ! a = heap w ! a
    \<and> heap (snd (snd (GetRaw lib env c p (Some a) w))) ! a = heap w ! a
    \<and> heap (snd (NewPageIterator p (Some a) n w)) ! a = heap w ! a
    \<and> baseParams (fst (NewPageIterator p (Some a) n w)) \<noteq> a
    \<and> heap (snd (snd (snd (Next lib' gj env c it w)))) ! a = heap w ! a"
proof -
  have 1: "heap (snd (snd (Get lib env c p (Some a) result w))) ! a = heap w ! a"
    by (rule prefix_nth [OF Get_heap assms])
  have 2: "heap (snd (snd (Post lib env c p (Some a) result w))) ! a = heap w ! a"
    by (rule prefix_nth [OF Post_heap assms])
  have 3: "heap (snd (snd (GetRaw lib env c p (Some a) w))) ! a = heap w ! a"
    by (rule prefix_nth [OF GetRaw_heap assms])
  have 4: "heap (snd (NewPageIterator p (Some a) n w)) ! a = heap w ! a"
    by (rule prefix_nth [OF NewPageIterator_heap [THEN conjunct1] assms])
  have 5: "baseParams (fst (NewPageIterator p (Some a) n w)) \<noteq> a"
    using NewPageIterator_heap [THEN conjunct2, of p "Some a" n w] assms by simp
  have 6: "heap (snd (snd (snd (Next lib' gj env c it w)))) ! a = heap w ! a"
    by (rule prefix_nth [OF Next_heap assms])
  show ?thesis by (intro conjI 1 2 3 4 5 6)
qed

text \<open>The caller's map at reference 0 of the concrete state, after each of the calls.\<close>

theorem callers_map_unchanged_witness:
  "0 < length (heap start)
   \<and> heap start ! 0 = [(''words'', ''bitcoin'')]
   \<and> heap (snd (snd (Get map_json (answering (Response 200 body_ok)) test_client ''/raw'' (Some 0)
              (Some []) start))) ! 0 = [(''words'', ''bitcoin'')]
   \<and> heap (snd (snd (Post map_json (answering (Response 200 body_ok)) test_client ''/raw'' (Some 0)
              (Some []) start))) ! 0 = [(''words'', ''bitcoin'')]
   \<and> heap (snd (snd (GetRaw map_json (answering (Response 200 body_ok)) test_client ''/raw''
              (Some 0) start))) ! 0 = [(''words'', ''bitcoin'')]
   \<and> heap (snd (NewPageIterator ''/api/base/apitools/search'' (Some 0) 10 start)) ! 0
       = [(''words'', ''bitcoin'')]
   \<and> baseParams (fst (NewPageIterator ''/api/base/apitools/search'' (Some 0) 10 start)) \<noteq> 0
   \<and> heap (snd (snd (snd (Next raw_json test_gjson (answering (Response 200 body_page))
              test_client test_iterator start)))) ! 0 = [(''words'', ''bitcoin'')]"
proof -
  have l: "0 < length (heap start)" by (simp add: start_def)
  have h: "heap start ! 0 = [(''words'', ''bitcoin'')]" by (simp add: start_def)
  note T1 = callers_map_unchanged [OF l, where lib = map_json
      and env = "answering (Response 200 body_ok)" and c = test_client and p = "''/raw''"
      and result = "Some []"]
  note T2 = callers_map_unchanged [OF l, where p = "''/api/base/apitools/search''" and n = 10
      and lib' = raw_json and gj = test_gjson and env = "answering (Response 200 body_page)"
      and c = test_client and it = test_iterator]
  show ?thesis
    using l h T1 [THEN conjunct1] T1 [THEN conjunct2, THEN conjunct1]
      T1 [THEN conjunct2, THEN conjunct2, THEN conjunct1]
      T2 [THEN conjunct2, THEN conjunct2, THEN conjunct2]
    by simp
qed

section \<open>The page iterator\<close>

text \<open>
  Claim C8: when \<^verbatim>\<open>Next\<close> returns a page whose next cursor is empty or is the cursor
  the iterator held for that request, the iterator's \<^verbatim>\<open>hasMore\<close> is false afterwards,
  whatever \<^verbatim>\<open>maxPages\<close> is; and when \<^verbatim>\<open>hasMore\<close> is false, \<^verbatim>\<open>Next\<close> returns no page and no
  error and leaves the iterator and the state as they are (nothing is fetched), so
  any number of further calls leaves \<^verbatim>\<open>hasMore\<close> false.
\<close>

theorem hasMore_false_is_final:
  "(\<forall>page err it' w'.
       Next lib gj env c it w = (Some page, err, it', w') \<and>
       (NextCursor page = [] \<or> NextCursor page = nextCursor it)
     \<longrightarrow> \<not> hasMore it')
   \<and> (\<not> hasMore it
     \<longrightarrow> Next lib gj env c it w = (None, None, it, w) \<and>
         (\<forall>n. (Next_state lib gj env c ^^ n) (it, w) = (it, w)))"
proof (intro conjI allI impI)
  fix page err it' w'
  assume "Next lib gj env c it w = (Some page, err, it', w') \<and>
       (NextCursor page = [] \<or> NextCursor page = nextCursor it)"
  then show "\<not> hasMore it'"
    by (auto simp: Next_def Let_def split_def split: if_splits prod.splits option.splits)
next
  assume n: "\<not> hasMore it"
  then show 1: "Next lib gj env c it w = (None, None, it, w)" by (simp add: Next_def)
  then have s: "Next_state lib gj env c (it, w) = (it, w)" by (simp add: Next_state_def)
  fix k show "(Next_state lib gj env c ^^ k) (it, w) = (it, w)"
    by (induction k) (simp_all add: s)
qed

text \<open>An iterator holding the cursor c1, with 1 of at most 10 pages fetched, receives
  a page that names c1 again: it stops, and three more calls change nothing.\<close>

theorem hasMore_false_is_final_witness:
  "Next raw_json test_gjson (answering (Response 200 body_page)) test_client test_iterator start =
     (Some \<lparr>RawData = data_page, NextCursor = ''c1'', PreviousCursor = []\<rparr>, None,
      test_iterator\<lparr>hasMore := False, pageCount := 2\<rparr>,
      \<lparr>heap = [[(''words'', ''bitcoin'')], [(''words'', ''bitcoin''), (''cursor'', ''c1'')],
               [(''words'', ''bitcoin''), (''cursor'', ''c1''), (''apiKey'', ''test-key'')]],
       clock = 1, attempts = 1, slept = []\<rparr>)
   \<and> nextCursor test_iterator = ''c1''
   \<and> pageCount (test_iterator\<lparr>hasMore := False, pageCount := 2\<rparr>)
       < maxPages (test_iterator\<lparr>hasMore := False, pageCount := 2\<rparr>)
   \<and> \<not> hasMore (test_iterator\<lparr>hasMore := False, pageCount := 2\<rparr>)
   \<and> Next raw_json test_gjson (answering (Response 200 body_page)) test_client
        (test_iterator\<lparr>hasMore := False, pageCount := 2\<rparr>) start =
      (None, None, test_iterator\<lparr>hasMore := False, pageCount := 2\<rparr>, start)
   \<and> (Next_state raw_json test_gjson (answering (Response 200 body_page)) test_client ^^ 3)
        (test_iterator\<lparr>hasMore := False, pageCount := 2\<rparr>, start) =
      (test_iterator\<lparr>hasMore := False, pageCount := 2\<rparr>, start)"
proof -
  let ?it' = "test_iterator\<lparr>hasMore := False, pageCount := 2\<rparr>"
  let ?page = "\<lparr>RawData = data_page, NextCursor = ''c1'', PreviousCursor = []\<rparr>"
  let ?w' = "\<lparr>heap = [[(''words'', ''bitcoin'')], [(''words'', ''bitcoin''), (''cursor'', ''c1'')],
               [(''words'', ''bitcoin''), (''cursor'', ''c1''), (''apiKey'', ''test-key'')]],
       clock = 1, attempts = 1, slept = []\<rparr>"
  have n: "Next raw_json test_gjson (answering (Response 200 body_page)) test_client test_iterator
             start = (Some ?page, None, ?it', ?w')"
    by code_simp
  have c: "nextCursor test_iterator = ''c1''" by (simp add: test_iterator_def)
  have st: "NextCursor ?page = [] \<or> NextCursor ?page = nextCursor test_iterator"
    by (simp add: c)
  have a: "\<not> hasMore ?it'"
    using hasMore_false_is_final [of raw_json test_gjson "answering (Response 200 body_page)"
        test_client test_iterator start, THEN conjunct1, THEN spec, THEN spec, THEN spec,
        THEN spec, THEN mp, OF conjI, OF n st] .
  have b: "Next raw_json test_gjson (answering (Response 200 body_page)) test_client ?it' start =
             (None, None, ?it', start) \<and>
           (\<forall>n. (Next_state raw_json test_gjson (answering (Response 200 body_page)) test_client
                   ^^ n) (?it', start) = (?it', start))"
    using hasMore_false_is_final [of raw_json test_gjson "answering (Response 200 body_page)"
        test_client ?it' start, THEN conjunct2, THEN mp, OF a] .
  have m: "pageCount ?it' < maxPages ?it'" by (simp add: test_iterator_def)
  show ?thesis using n c m a b by blast
qed


section \<open>The retry driver: retrying\<close>

text \<open>A run of the loop through \<open>k\<close> cycles that fail with retryable errors: \<open>W i\<close> and
  \<open>R i\<close> are the state and the destination in which iteration \<open>i\<close> starts, \<open>E i\<close> the
  error of its cycle.\<close>

lemma loop_trace:
  assumes "0 \<le> a" and "a + int k \<le> maxRetries c + 1"
    and "\<forall>i<k. (0 < a + int i \<longrightarrow> ctx_done (env (clock (W i))) = None) \<and>
               limiter_wait (env (clock (W i))) = None \<and>
               do lib (env (clock (W i))) c meth pth params (R i) (before_cycle (a + int i) (W i))
                 = (Some (E i), R (Suc i), W (Suc i)) \<and>
               isRetryableError (Some (E i))"
  shows "doWithRetry_loop lib env c meth pth params a lastErr (R 0) (W 0) =
           doWithRetry_loop lib env c meth pth params (a + int k)
             (if k = 0 then lastErr else Some (E (k - 1))) (R k) (W k) \<and>
         attempts (W k) = attempts (W 0) + k"
  using assms
proof (induction k)
  case 0
  then show ?case by simp
next
  case (Suc k)
  have IH: "doWithRetry_loop lib env c meth pth params a lastErr (R 0) (W 0) =
           doWithRetry_loop lib env c meth pth params (a + int k)
             (if k = 0 then lastErr else Some (E (k - 1))) (R k) (W k) \<and>
         attempts (W k) = attempts (W 0) + k"
    using Suc.prems by (intro Suc.IH) auto
  have at: "(0 < a + int k \<longrightarrow> ctx_done (env (clock (W k))) = None) \<and>
               limiter_wait (env (clock (W k))) = None \<and>
               do lib (env (clock (W k))) c meth pth params (R k) (before_cycle (a + int k) (W k))
                 = (Some (E k), R (Suc k), W (Suc k)) \<and>
               isRetryableError (Some (E k))"
    using Suc.prems(3) by blast
  have le: "a + int k \<le> maxRetries c" using Suc.prems(2) by simp
  have l1: "0 < a + int k \<Longrightarrow> ctx_done (env (clock (W k))) = None" using at by blast
  have l2: "limiter_wait (env (clock (W k))) = None" using at by blast
  have d: "do lib (env (clock (W k))) c meth pth params (R k)
             (if 0 < a + int k
              then (W k)\<lparr>clock := Suc (clock (W k)), slept := slept (W k) @ [backoff (a + int k)]\<rparr>
              else (W k)\<lparr>clock := Suc (clock (W k))\<rparr>) = (Some (E k), R (Suc k), W (Suc k))"
    using at by (simp add: before_cycle_def)
  have re: "isRetryableError (Some (E k))" using at by blast
  have step: "doWithRetry_loop lib env c meth pth params (a + int k)
                (if k = 0 then lastErr else Some (E (k - 1))) (R k) (W k) =
              doWithRetry_loop lib env c meth pth params (a + int k + 1) (Some (E k))
                (R (Suc k)) (W (Suc k))"
    using le l1 l2 d re
    by (intro loop_retry_step [where env = env and w = "W k" and e = "E k"]) simp_all
  have a3: "attempts (W (Suc k)) = Suc (attempts (W k))" using do_world [OF d] by simp
  have idx: "a + int k + 1 = a + int (Suc k)" by simp
  show ?case using IH step a3 idx by simp
qed

text \<open>
  Claim C1: with \<open>maxRetries \<ge> 0\<close>, for every sequence \<open>E 0, \<dots>, E (k - 1)\<close> of
  retryable errors, \<open>k \<le> maxRetries\<close>, returned by the first \<open>k\<close> transport cycles of
  the call and followed by a cycle that succeeds, \<^verbatim>\<open>doWithRetry\<close> returns what that
  cycle returned (no error, its destination and state) after exactly \<open>k + 1\<close> cycles;
  and when all \<open>maxRetries + 1\<close> cycles fail with retryable errors it returns the
  error of the last one, after \<open>maxRetries + 1\<close> cycles. The cycles are those of the
  run itself: iteration \<open>i\<close> starts in the state \<open>W i\<close> with the destination \<open>R i\<close>
  that the cycle before it left. A cycle takes place when the context is not done
  during the backoff before it and the rate limiter admits the request.
\<close>

theorem doWithRetry_retries_until_success:
  assumes "0 \<le> maxRetries c" and "R 0 = result" and "W 0 = w"
  shows
   "(\<forall>k r' w'.
        int k \<le> maxRetries c \<and>
        (\<forall>i<k. (0 < i \<longrightarrow> ctx_done (env (clock (W i))) = None) \<and>
                limiter_wait (env (clock (W i))) = None \<and>
                do lib (env (clock (W i))) c method pth params (R i) (before_cycle (int i) (W i))
                  = (Some (E i), R (Suc i), W (Suc i)) \<and>
                isRetryableError (Some (E i))) \<and>
        (0 < k \<longrightarrow> ctx_done (env (clock (W k))) = None) \<and>
        limiter_wait (env (clock (W k))) = None \<and>
        do lib (env (clock (W k))) c method pth params (R k) (before_cycle (int k) (W k))
          = (None, r', w')
      \<longrightarrow> doWithRetry lib env c method pth params result w = (None, r', w') \<and>
          attempts w' = attempts w + k + 1)
    \<and>
    ((\<forall>i\<le>nat (maxRetries c).
         (0 < i \<longrightarrow> ctx_done (env (clock (W i))) = None) \<and>
         limiter_wait (env (clock (W i))) = None \<and>
         do lib (env (clock (W i))) c method pth params (R i) (before_cycle (int i) (W i))
           = (Some (E i), R (Suc i), W (Suc i)) \<and>
         isRetryableError (Some (E i)))
      \<longrightarrow> doWithRetry lib env c method pth params result w =
            (Some (E (nat (maxRetries c))), R (Suc (nat (maxRetries c))),
             W (Suc (nat (maxRetries c)))) \<and>
          attempts (W (Suc (nat (maxRetries c)))) = attempts w + nat (maxRetries c) + 1)"
proof (intro conjI allI impI)
  fix k r' w'
  assume A: "int k \<le> maxRetries c \<and>
        (\<forall>i<k. (0 < i \<longrightarrow> ctx_done (env (clock (W i))) = None) \<and>
                limiter_wait (env (clock (W i))) = None \<and>
                do lib (env (clock (W i))) c method pth params (R i) (before_cycle (int i) (W i))
                  = (Some (E i), R (Suc i), W (Suc i)) \<and>
                isRetryableError (Some (E i))) \<and>
        (0 < k \<longrightarrow> ctx_done (env (clock (W k))) = None) \<and>
        limiter_wait (env (clock (W k))) = None \<and>
        do lib (env (clock (W k))) c method pth params (R k) (before_cycle (int k) (W k))
          = (None, r', w')"
  have k: "int k \<le> maxRetries c" using A by blast
  have fails: "\<forall>i<k. (0 < 0 + int i \<longrightarrow> ctx_done (env (clock (W i))) = None) \<and>
                limiter_wait (env (clock (W i))) = None \<and>
                do lib (env (clock (W i))) c method pth params (R i)
                  (before_cycle (0 + int i) (W i)) = (Some (E i), R (Suc i), W (Suc i)) \<and>
                isRetryableError (Some (E i))"
    using A by simp
  have b: "0 + int k \<le> maxRetries c + 1" using k by simp
  have L: "doWithRetry_loop lib env c method pth params 0 None (R 0) (W 0) =
           doWithRetry_loop lib env c method pth params (0 + int k)
             (if k = 0 then None else Some (E (k - 1))) (R k) (W k)"
    and at: "attempts (W k) = attempts (W 0) + k"
    using loop_trace [OF order_refl b fails, of None] by simp_all
  have l1: "0 < int k \<Longrightarrow> ctx_done (env (clock (W k))) = None" using A by simp
  have l2: "limiter_wait (env (clock (W k))) = None" using A by blast
  have d: "do lib (env (clock (W k))) c method pth params (R k)
             (if 0 < int k
              then (W k)\<lparr>clock := Suc (clock (W k)), slept := slept (W k) @ [backoff (int k)]\<rparr>
              else (W k)\<lparr>clock := Suc (clock (W k))\<rparr>) = (None, r', w')"
    using A by (simp add: before_cycle_def)
  have nr: "\<not> isRetryableError None" by (simp add: isRetryableError_def)
  have fin: "doWithRetry_loop lib env c method pth params (int k)
               (if k = 0 then None else Some (E (k - 1))) (R k) (W k) = (None, r', w')"
    using k l1 l2 d nr
    by (intro loop_final_step [where env = env and w = "W k"]) simp_all
  have a3: "attempts w' = Suc (attempts (W k))" using do_world [OF d] by simp
  show "doWithRetry lib env c method pth params result w = (None, r', w')"
    using L fin assms(2,3) by (simp add: doWithRetry_def)
  show "attempts w' = attempts w + k + 1"
    using a3 at assms(3) by simp
next
  let ?n = "nat (maxRetries c)"
  assume A: "\<forall>i\<le>?n.
         (0 < i \<longrightarrow> ctx_done (env (clock (W i))) = None) \<and>
         limiter_wait (env (clock (W i))) = None \<and>
         do lib (env (clock (W i))) c method pth params (R i) (before_cycle (int i) (W i))
           = (Some (E i), R (Suc i), W (Suc i)) \<and>
         isRetryableError (Some (E i))"
  have fails: "\<forall>i<Suc ?n. (0 < 0 + int i \<longrightarrow> ctx_done (env (clock (W i))) = None) \<and>
                limiter_wait (env (clock (W i))) = None \<and>
                do lib (env (clock (W i))) c method pth params (R i)
                  (before_cycle (0 + int i) (W i)) = (Some (E i), R (Suc i), W (Suc i)) \<and>
                isRetryableError (Some (E i))"
    using A by (simp add: less_Suc_eq_le)
  have b: "0 + int (Suc ?n) \<le> maxRetries c + 1" using assms(1) by simp
  have L: "doWithRetry_loop lib env c method pth params 0 None (R 0) (W 0) =
           doWithRetry_loop lib env c method pth params (0 + int (Suc ?n))
             (Some (E ?n)) (R (Suc ?n)) (W (Suc ?n))"
    and at: "attempts (W (Suc ?n)) = attempts (W 0) + Suc ?n"
    using loop_trace [OF order_refl b fails, of None] by simp_all
  have "\<not> (0 + int (Suc ?n)) \<le> maxRetries c" using assms(1) by simp
  then have "doWithRetry_loop lib env c method pth params (0 + int (Suc ?n))
               (Some (E ?n)) (R (Suc ?n)) (W (Suc ?n)) = (Some (E ?n), R (Suc ?n), W (Suc ?n))"
    by (rule loop_exhausted)
  then show "doWithRetry lib env c method pth params result w =
            (Some (E ?n), R (Suc ?n), W (Suc ?n))"
    using L assms(2,3) by (simp add: doWithRetry_def)
  show "attempts (W (Suc ?n)) = attempts w + ?n + 1"
    using at assms(3) by simp
qed


text \<open>With the two retries of the test client: a 429 with code 88 and a 200 whose
  envelope has code 88 are retried and the third cycle succeeds; when the third
  cycle answers 403, its error is returned.\<close>

theorem doWithRetry_retries_until_success_witness:
  "0 \<le> maxRetries test_client
   \<and> doWithRetry map_json retry_env test_client ''GET'' ''/retry'' (Some 0) (Some []) start
       = (None, Some [(''ok'', ''yes'')], retry_state 3)
   \<and> attempts (retry_state 3) = attempts start + 2 + 1
   \<and> doWithRetry map_json failing_env test_client ''GET'' ''/retry'' (Some 0) (Some []) start
       = (Some (retry_error 2), Some [], retry_state 3)
   \<and> isRetryableError (Some (retry_error 2))"
proof -
  let ?R = "\<lambda>i::nat. Some ([] :: (string \<times> string) list)"
  let ?P = "\<lambda>env i. (0 < i \<longrightarrow> ctx_done (env (clock (retry_state i))) = None) \<and>
         limiter_wait (env (clock (retry_state i))) = None \<and>
         do map_json (env (clock (retry_state i))) test_client ''GET'' ''/retry'' (Some 0) (?R i)
           (before_cycle (int i) (retry_state i))
           = (Some (retry_error i), ?R (Suc i), retry_state (Suc i)) \<and>
         isRetryableError (Some (retry_error i))"
  have m: "0 \<le> maxRetries test_client" by (simp add: test_client_def)
  have r0: "?R 0 = Some []" by simp
  have w0: "retry_state 0 = start" by (simp add: retry_state_def start_def)
  have p0: "?P retry_env 0" by code_simp
  have p1: "?P retry_env (Suc 0)" by code_simp
  have q0: "?P failing_env 0" by code_simp
  have q1: "?P failing_env (Suc 0)" by code_simp
  have q2: "?P failing_env (Suc (Suc 0))" by code_simp
  have fails: "\<forall>i<2. ?P retry_env i"
  proof (intro allI impI)
    fix i :: nat assume "i < 2"
    then consider "i = 0" | "i = Suc 0" by linarith
    then show "?P retry_env i" using p0 p1 by cases simp_all
  qed
  have ok: "(0 < (2::nat) \<longrightarrow> ctx_done (retry_env (clock (retry_state 2))) = None) \<and>
        limiter_wait (retry_env (clock (retry_state 2))) = None \<and>
        do map_json (retry_env (clock (retry_state 2))) test_client ''GET'' ''/retry'' (Some 0)
          (?R 2) (before_cycle (int 2) (retry_state 2))
          = (None, Some [(''ok'', ''yes'')], retry_state 3)"
    by code_simp
  have k: "int 2 \<le> maxRetries test_client" by (simp add: test_client_def)
  have all_fail: "\<forall>i\<le>nat (maxRetries test_client). ?P failing_env i"
  proof (intro allI impI)
    fix i :: nat assume "i \<le> nat (maxRetries test_client)"
    then have "i \<le> 2" by (simp add: test_client_def)
    then consider "i = 0" | "i = Suc 0" | "i = Suc (Suc 0)" by linarith
    then show "?P failing_env i" using q0 q1 q2 by cases simp_all
  qed
  have a: "doWithRetry map_json retry_env test_client ''GET'' ''/retry'' (Some 0) (Some []) start
             = (None, Some [(''ok'', ''yes'')], retry_state 3) \<and>
           attempts (retry_state 3) = attempts start + 2 + 1"
    using doWithRetry_retries_until_success [where R = ?R and W = retry_state
        and E = retry_error and env = retry_env and lib = map_json and c = test_client
        and result = "Some []" and w = start, OF m r0 w0, THEN conjunct1, THEN spec [where x = 2],
        THEN spec, THEN spec, THEN mp, OF conjI [OF k conjI [OF fails ok]]] .
  have n2: "nat (maxRetries test_client) = 2" by (simp add: test_client_def)
  have b: "doWithRetry map_json failing_env test_client ''GET'' ''/retry'' (Some 0) (Some []) start
             = (Some (retry_error 2), Some [], retry_state 3)"
    using doWithRetry_retries_until_success [where R = ?R and W = retry_state
        and E = retry_error and env = failing_env and lib = map_json and c = test_client
        and result = "Some []" and w = start, OF m r0 w0, THEN conjunct2, THEN mp, OF all_fail]
    by (simp add: n2 numeral_3_eq_3)
  have re: "isRetryableError (Some (retry_error 2))" by code_simp
  show ?thesis using m a b re by blast
qed


section \<open>Decode failures\<close>

text \<open>
  Claim C6, as stated: a decode failure at any stage of the unwrapping comes back as an
  error. It fails at the first stage: when the body does not decode as an envelope,
  \<^verbatim>\<open>do\<close> drops that failure and decodes the whole body into the destination, and when
  this works no error is returned. The body below has a string where the envelope has
  its \<^verbatim>\<open>int\<close> code; the destination, a map of strings, takes it.
\<close>

theorem envelope_decode_failure_not_reported:
  "unmarshal_envelope map_json body_plain = None
   \<and> do map_json (answering (Response 200 body_plain) 0) test_client ''GET'' ''/raw'' None
        (Some []) start =
      (None, Some [(''code'', ''x''), (''hello'', ''world'')],
       start\<lparr>heap := heap start @ [[(''apiKey'', ''test-key'')]], attempts := 1\<rparr>)"
  by code_simp

text \<open>
  Claim C6, amended: a failure to decode into the result destination, at each of the
  three places where \<^verbatim>\<open>do\<close> does that (the inner string of a quoted \<^verbatim>\<open>data\<close>; the
  \<^verbatim>\<open>data\<close> field itself, also when it is quoted but does not decode as a string; the
  whole body when it gives no valid envelope), comes back as an error that the
  classifier calls non-retryable and whose message is a prefix, the message of the
  decode failure and the payload cut at 500: the payload itself when it has at most
  500 bytes, otherwise its first 500 bytes followed by three dots. A failure to decode
  the envelope, or to decode a quoted \<^verbatim>\<open>data\<close> as a string, is not reported: the next
  decoding is tried.
\<close>

theorem decode_failures_not_retried:
  assumes "request ae c method pth params w = (Inr (status, body), w')"
    and "200 \<le> status" and "status < 300"
  shows
   "(\<forall>env dataStr m r'.
        unmarshal_envelope lib body = Some env \<and> (Code_e env = 0 \<or> Code_e env = 1) \<and>
        quoted (Data env) \<and> unmarshal_string lib (Data env) = Some dataStr \<and>
        unmarshal_result lib dataStr r = (Some m, r')
      \<longrightarrow> do lib ae c method pth params (Some r) w =
            (Some (Wrapped ''utools: unmarshal inner data: '' (JsonErr m)
                     ('' (data: '' @ Truncate dataStr 500 @ '')'')), Some r', w') \<and>
          \<not> isRetryableError (fst (do lib ae c method pth params (Some r) w)) \<and>
          map_option Error (fst (do lib ae c method pth params (Some r) w)) =
            Some (''utools: unmarshal inner data: '' @ m @ '' (data: '' @ Truncate dataStr 500 @ '')''))
    \<and>
    (\<forall>env m r'.
        unmarshal_envelope lib body = Some env \<and> (0 < length (Data env) \<or> Code_e env \<noteq> 0) \<and>
        (Code_e env = 0 \<or> Code_e env = 1) \<and>
        (\<not> quoted (Data env) \<or> unmarshal_string lib (Data env) = None) \<and>
        unmarshal_result lib (Data env) r = (Some m, r')
      \<longrightarrow> do lib ae c method pth params (Some r) w =
            (Some (Wrapped ''utools: unmarshal data field: '' (JsonErr m)
                     ('' (data: '' @ Truncate (Data env) 500 @ '')'')), Some r', w') \<and>
          \<not> isRetryableError (fst (do lib ae c method pth params (Some r) w)) \<and>
          map_option Error (fst (do lib ae c method pth params (Some r) w)) =
            Some (''utools: unmarshal data field: '' @ m @ '' (data: '' @ Truncate (Data env) 500 @ '')''))
    \<and>
    (\<forall>m r'.
        (unmarshal_envelope lib body = None \<or>
         (\<exists>env. unmarshal_envelope lib body = Some env \<and> Data env = [] \<and> Code_e env = 0)) \<and>
        unmarshal_result lib body r = (Some m, r')
      \<longrightarrow> do lib ae c method pth params (Some r) w =
            (Some (Wrapped ''utools: unmarshal response: '' (JsonErr m)
                     ('' (body: '' @ Truncate body 500 @ '')'')), Some r', w') \<and>
          \<not> isRetryableError (fst (do lib ae c method pth params (Some r) w)) \<and>
          map_option Error (fst (do lib ae c method pth params (Some r) w)) =
            Some (''utools: unmarshal response: '' @ m @ '' (body: '' @ Truncate body 500 @ '')''))
    \<and>
    (\<forall>s. Truncate s 500 = (if length s \<le> 500 then s else take 500 s @ ''...''))"
proof (intro conjI allI impI)
  fix env dataStr m r'
  assume A: "unmarshal_envelope lib body = Some env \<and> (Code_e env = 0 \<or> Code_e env = 1) \<and>
        quoted (Data env) \<and> unmarshal_string lib (Data env) = Some dataStr \<and>
        unmarshal_result lib dataStr r = (Some m, r')"
  then have "0 < length (Data env)" by (cases "Data env") (simp_all add: quoted_def)
  then have d: "do lib ae c method pth params (Some r) w =
            (Some (Wrapped ''utools: unmarshal inner data: '' (JsonErr m)
                     ('' (data: '' @ Truncate dataStr 500 @ '')'')), Some r', w')"
    using A assms by (auto simp: do_def unwrap_def)
  show "do lib ae c method pth params (Some r) w =
            (Some (Wrapped ''utools: unmarshal inner data: '' (JsonErr m)
                     ('' (data: '' @ Truncate dataStr 500 @ '')'')), Some r', w')"
    by (rule d)
  show "\<not> isRetryableError (fst (do lib ae c method pth params (Some r) w))"
    by (simp add: d wrapped_json_not_retryable)
  show "map_option Error (fst (do lib ae c method pth params (Some r) w)) =
            Some (''utools: unmarshal inner data: '' @ m @ '' (data: '' @ Truncate dataStr 500 @ '')'')"
    by (simp add: d)
next
  fix env m r'
  assume A: "unmarshal_envelope lib body = Some env \<and> (0 < length (Data env) \<or> Code_e env \<noteq> 0) \<and>
        (Code_e env = 0 \<or> Code_e env = 1) \<and>
        (\<not> quoted (Data env) \<or> unmarshal_string lib (Data env) = None) \<and>
        unmarshal_result lib (Data env) r = (Some m, r')"
  then have d: "do lib ae c method pth params (Some r) w =
            (Some (Wrapped ''utools: unmarshal data field: '' (JsonErr m)
                     ('' (data: '' @ Truncate (Data env) 500 @ '')'')), Some r', w')"
    using assms by (auto simp: do_def unwrap_def decode_data_def)
  show "do lib ae c method pth params (Some r) w =
            (Some (Wrapped ''utools: unmarshal data field: '' (JsonErr m)
                     ('' (data: '' @ Truncate (Data env) 500 @ '')'')), Some r', w')"
    by (rule d)
  show "\<not> isRetryableError (fst (do lib ae c method pth params (Some r) w))"
    by (simp add: d wrapped_json_not_retryable)
  show "map_option Error (fst (do lib ae c method pth params (Some r) w)) =
            Some (''utools: unmarshal data field: '' @ m @ '' (data: '' @ Truncate (Data env) 500 @ '')'')"
    by (simp add: d)
next
  fix m r'
  assume A: "(unmarshal_envelope lib body = None \<or>
         (\<exists>env. unmarshal_envelope lib body = Some env \<and> Data env = [] \<and> Code_e env = 0)) \<and>
        unmarshal_result lib body r = (Some m, r')"
  then have d: "do lib ae c method pth params (Some r) w =
            (Some (Wrapped ''utools: unmarshal response: '' (JsonErr m)
                     ('' (body: '' @ Truncate body 500 @ '')'')), Some r', w')"
    using assms by (auto simp: do_def unwrap_def)
  show "do lib ae c method pth params (Some r) w =
            (Some (Wrapped ''utools: unmarshal response: '' (JsonErr m)
                     ('' (body: '' @ Truncate body 500 @ '')'')), Some r', w')"
    by (rule d)
  show "\<not> isRetryableError (fst (do lib ae c method pth params (Some r) w))"
    by (simp add: d wrapped_json_not_retryable)
  show "map_option Error (fst (do lib ae c method pth params (Some r) w)) =
            Some (''utools: unmarshal response: '' @ m @ '' (body: '' @ Truncate body 500 @ '')'')"
    by (simp add: d)
next
  fix s show "Truncate s 500 = (if length s \<le> 500 then s else take 500 s @ ''...'')"
    by (simp add: Truncate_def)
qed

text \<open>One body for each of the three places; the first is the body of
  \<^verbatim>\<open>TestDoWithRetryDoesNotRetryUnmarshalError\<close>, the third has 600 bytes, of which the
  message shows 500 and the dots.\<close>

theorem decode_failures_not_retried_witness:
  "fst (do map_json (answering (Response 200 body_bad) 0) test_client ''GET'' ''/bad'' None
          (Some []) start) =
     Some (Wrapped ''utools: unmarshal inner data: '' (JsonErr err_syntax) '' (data: {bad})'')
   \<and> \<not> isRetryableError (fst (do map_json (answering (Response 200 body_bad) 0) test_client
           ''GET'' ''/bad'' None (Some []) start))
   \<and> fst (do map_json (answering (Response 200 body_list_data) 0) test_client ''GET'' ''/bad'' None
          (Some []) start) =
     Some (Wrapped ''utools: unmarshal data field: '' (JsonErr err_type) '' (data: [1,2])'')
   \<and> \<not> isRetryableError (fst (do map_json (answering (Response 200 body_list_data) 0) test_client
           ''GET'' ''/bad'' None (Some []) start))
   \<and> fst (do map_json (answering (Response 200 body_long) 0) test_client ''GET'' ''/bad'' None
          (Some []) start) =
     Some (Wrapped ''utools: unmarshal response: '' (JsonErr err_value)
             ('' (body: '' @ replicate 500 (CHR ''x'') @ ''...)''))
   \<and> \<not> isRetryableError (fst (do map_json (answering (Response 200 body_long) 0) test_client
           ''GET'' ''/bad'' None (Some []) start))
   \<and> length body_long = 600"
proof -
  let ?w' = "start\<lparr>heap := heap start @ [[(''apiKey'', ''test-key'')]], attempts := 1\<rparr>"
  have r1: "request (answering (Response 200 body_bad) 0) test_client ''GET'' ''/bad'' None start
             = (Inr (200, body_bad), ?w')"
    by code_simp
  have r2: "request (answering (Response 200 body_list_data) 0) test_client ''GET'' ''/bad'' None start
             = (Inr (200, body_list_data), ?w')"
    by code_simp
  have r3: "request (answering (Response 200 body_long) 0) test_client ''GET'' ''/bad'' None start
             = (Inr (200, body_long), ?w')"
    by (simp add: request_def answering_def served_def send_def make_map_def copy_into_def
        range_map_def map_assign_def test_client_def start_def Let_def)
  have h1: \<open>unmarshal_envelope map_json body_bad
              = Some \<lparr>Code_e = 1, Data = ''"{bad}"'', Msg = ''SUCCESS'', Result = []\<rparr> \<and>
            (Code_e \<lparr>Code_e = 1, Data = ''"{bad}"'', Msg = ''SUCCESS'', Result = []\<rparr> = 0 \<or>
             Code_e \<lparr>Code_e = 1, Data = ''"{bad}"'', Msg = ''SUCCESS'', Result = []\<rparr> = 1) \<and>
            quoted (Data \<lparr>Code_e = 1, Data = ''"{bad}"'', Msg = ''SUCCESS'', Result = []\<rparr>) \<and>
            unmarshal_string map_json
              (Data \<lparr>Code_e = 1, Data = ''"{bad}"'', Msg = ''SUCCESS'', Result = []\<rparr>) = Some ''{bad}'' \<and>
            unmarshal_result map_json ''{bad}'' [] = (Some err_syntax, [])\<close>
    by code_simp
  have h2: "unmarshal_envelope map_json body_list_data
              = Some \<lparr>Code_e = 1, Data = ''[1,2]'', Msg = ''SUCCESS'', Result = []\<rparr> \<and>
            (0 < length (Data \<lparr>Code_e = 1, Data = ''[1,2]'', Msg = ''SUCCESS'', Result = []\<rparr>) \<or>
             Code_e \<lparr>Code_e = 1, Data = ''[1,2]'', Msg = ''SUCCESS'', Result = []\<rparr> \<noteq> 0) \<and>
            (Code_e \<lparr>Code_e = 1, Data = ''[1,2]'', Msg = ''SUCCESS'', Result = []\<rparr> = 0 \<or>
             Code_e \<lparr>Code_e = 1, Data = ''[1,2]'', Msg = ''SUCCESS'', Result = []\<rparr> = 1) \<and>
            (\<not> quoted (Data \<lparr>Code_e = 1, Data = ''[1,2]'', Msg = ''SUCCESS'', Result = []\<rparr>) \<or>
             unmarshal_string map_json
               (Data \<lparr>Code_e = 1, Data = ''[1,2]'', Msg = ''SUCCESS'', Result = []\<rparr>) = None) \<and>
            unmarshal_result map_json
              (Data \<lparr>Code_e = 1, Data = ''[1,2]'', Msg = ''SUCCESS'', Result = []\<rparr>) []
              = (Some err_type, [])"
    by code_simp
  have len: "length body_long = 600" by (simp add: body_long_def)
  have h3: "(unmarshal_envelope map_json body_long = None \<or>
             (\<exists>env. unmarshal_envelope map_json body_long = Some env \<and> Data env = [] \<and>
                    Code_e env = 0)) \<and>
            unmarshal_result map_json body_long [] = (Some err_value, [])"
  proof -
    have "unmarshal_envelope map_json body_long = None" by code_simp
    moreover have "unmarshal_result map_json body_long [] = (Some err_value, [])" by code_simp
    ultimately show ?thesis by simp
  qed
  note T1 = decode_failures_not_retried [OF r1, of map_json "[]", THEN conjunct1, THEN spec,
      THEN spec, THEN spec, THEN spec, THEN mp, OF _ _ h1]
  note T2 = decode_failures_not_retried [OF r2, of map_json "[]", THEN conjunct2, THEN conjunct1,
      THEN spec, THEN spec, THEN spec, THEN mp, OF _ _ h2]
  note T3 = decode_failures_not_retried [OF r3, of map_json "[]", THEN conjunct2, THEN conjunct2,
      THEN conjunct1, THEN spec, THEN spec, THEN mp, OF _ _ h3]
  note T4 = decode_failures_not_retried [OF r3, of map_json "[]", THEN conjunct2, THEN conjunct2,
      THEN conjunct2, THEN spec, of body_long]
  have cut: "Truncate body_long 500 = replicate 500 (CHR ''x'') @ ''...''"
    using T4 by (simp add: body_long_def)
  have a1: "fst (do map_json (answering (Response 200 body_bad) 0) test_client ''GET'' ''/bad'' None
          (Some []) start) =
     Some (Wrapped ''utools: unmarshal inner data: '' (JsonErr err_syntax) '' (data: {bad})'')"
    using T1 [THEN conjunct1] by (simp add: Truncate_def)
  have a2: "fst (do map_json (answering (Response 200 body_list_data) 0) test_client ''GET'' ''/bad''
          None (Some []) start) =
     Some (Wrapped ''utools: unmarshal data field: '' (JsonErr err_type) '' (data: [1,2])'')"
    using T2 [THEN conjunct1] by (simp add: Truncate_def)
  have a3: "fst (do map_json (answering (Response 200 body_long) 0) test_client ''GET'' ''/bad'' None
          (Some []) start) =
     Some (Wrapped ''utools: unmarshal response: '' (JsonErr err_value)
             ('' (body: '' @ replicate 500 (CHR ''x'') @ ''...)''))"
    using T3 [THEN conjunct1] by (simp add: cut)
  note b1 = T1 [THEN conjunct2, THEN conjunct1]
  note b2 = T2 [THEN conjunct2, THEN conjunct1]
  note b3 = T3 [THEN conjunct2, THEN conjunct1]
  show ?thesis by (intro conjI a1 b1 a2 b2 a3 b3 len) simp_all
qed


section \<open>The cursor extractor\<close>










end
